theory Spec2Isabelle
  imports Main
begin

section \<open>Values shared by the whole program\<close>

text \<open>
  A JavaScript \<open>Error\<close> is modelled by its \<open>message\<close>: the program only ever reads
  that field. An \<open>await\<close> that rejects and a \<open>throw\<close> are the left injection of a sum,
  so that every \<open>try\<close>/\<open>catch\<close> of the source is a case distinction of the model.
\<close>

datatype error = Error (message: string)

type_synonym handle = nat

text \<open>Template literals print numbers in decimal.\<close>

definition digit_char :: "nat \<Rightarrow> char" where
  "digit_char d =
     (if d = 0 then CHR ''0'' else if d = 1 then CHR ''1'' else if d = 2 then CHR ''2''
      else if d = 3 then CHR ''3'' else if d = 4 then CHR ''4'' else if d = 5 then CHR ''5''
      else if d = 6 then CHR ''6'' else if d = 7 then CHR ''7'' else if d = 8 then CHR ''8''
      else CHR ''9'')"

fun digits :: "nat \<Rightarrow> string" where
  "digits n = (if n < 10 then [digit_char n] else digits (n div 10) @ [digit_char (n mod 10)])"

declare digits.simps [simp del]

definition show_int :: "int \<Rightarrow> string" where
  "show_int i = (if i < 0 then CHR ''-'' # digits (nat (- i)) else digits (nat i))"

text \<open>
  \<open>String.prototype.trim\<close> on the byte model of strings: the ASCII white space and line
  terminators (tab, line feed, vertical tab, form feed, carriage return, space).
\<close>

definition is_space :: "char \<Rightarrow> bool" where
  "is_space c = (c = CHR 0x09 \<or> c = CHR 0x0A \<or> c = CHR 0x0B \<or> c = CHR 0x0C
                 \<or> c = CHR 0x0D \<or> c = CHR 0x20)"

definition trim :: "string \<Rightarrow> string" where
  "trim s = rev (dropWhile is_space (rev (dropWhile is_space s)))"

section \<open>The outside world\<close>

text \<open>
  Docker, the browser and the remote agent are outside the program. Each call to them
  is a function of a world state \<open>'w\<close> that returns the outcome and the next world; the
  theorems hold for every such interface.

  What \<open>container.exec\<close>, \<open>exec.start\<close>, the stream and \<open>exec.inspect\<close> do for one
  command is one value: either the exec cannot be created or started, or there is a
  stream of events in the order the event loop delivers them, together with what
  \<open>inspect\<close> answers once the stream has ended. \<open>TimerFired\<close> is the 30000 ms timer of
  \<open>execute\<close>; the timer always fires in the end, so a stream whose events run out
  without \<open>End\<close> or \<open>StreamError\<close> is settled by the timer too. Real time is abstracted
  to this order of events. A chunk is its bytes; \<open>chunk.toString()\<close> is taken to keep
  them (headers and payloads below 128).
\<close>

datatype stream_event = Data string | End | StreamError string | TimerFired

datatype inspect_outcome = ExitCode int | InspectFails string

datatype exec_run = ExecThrows string | ExecStream "stream_event list" inspect_outcome

datatype archive_outcome = ArchiveThrows string | ArchiveError string | ArchiveEnd

text \<open>The remote agent's protocol.\<close>

record tool_input =
  in_action :: "string option"
  in_coordinate :: "int list option"
  in_text :: "string option"
  in_key :: "string option"
  in_direction :: "string option"
  in_clicks :: "int option"
  in_command :: "string option"

record tool_use =
  tu_id :: string
  tu_name :: string
  tu_input :: tool_input

datatype block = TextBlock string | ToolUseBlock tool_use | OtherBlock string

datatype role = User | Assistant

datatype content =
    Plain string
  | Blocks "block list"
  | ImageAndText string string
  | ToolResult string string

type_synonym turn = "role \<times> content"

datatype tool_decl = ComputerTool string nat nat | NamedTool string string

record request =
  model :: string
  max_tokens :: nat
  tools :: "tool_decl list"
  req_messages :: "turn list"

text \<open>The calls the page object of the browser library receives.\<close>

datatype page_op =
    SetViewport nat nat
  | Goto string
  | TakeScreenshot
  | MouseClick "int option" "int option"
  | KeyboardType "string option"
  | KeyboardPress "string option"
  | MouseMove "int option" "int option"
  | MouseWheel int

record 'w api =
  now :: "'w \<Rightarrow> nat"
  messages_create :: "request \<Rightarrow> 'w \<Rightarrow> (error + block list) \<times> 'w"
  docker_pull :: "'w \<Rightarrow> (error + unit) \<times> 'w"
  docker_createContainer :: "string \<Rightarrow> 'w \<Rightarrow> (error + handle) \<times> 'w"
  container_start :: "handle \<Rightarrow> 'w \<Rightarrow> (error + unit) \<times> 'w"
  container_exec :: "handle \<Rightarrow> string \<Rightarrow> 'w \<Rightarrow> exec_run \<times> 'w"
  container_getArchive :: "handle \<Rightarrow> string \<Rightarrow> 'w \<Rightarrow> archive_outcome \<times> 'w"
  container_stop :: "handle \<Rightarrow> 'w \<Rightarrow> (error + unit) \<times> 'w"
  container_remove :: "handle \<Rightarrow> 'w \<Rightarrow> (error + unit) \<times> 'w"
  puppeteer_launch :: "'w \<Rightarrow> (error + handle) \<times> 'w"
  browser_newPage :: "handle \<Rightarrow> 'w \<Rightarrow> (error + handle) \<times> 'w"
  page_call :: "handle \<Rightarrow> page_op \<Rightarrow> 'w \<Rightarrow> (error + string) \<times> 'w"
  browser_close :: "handle \<Rightarrow> 'w \<Rightarrow> (error + unit) \<times> 'w"

section \<open>DockerManager\<close>

text \<open>
  The manager's only field is \<open>container\<close>, \<open>null\<close> or a handle: the functions below
  take it as \<open>handle option\<close> and return it when they assign it.
\<close>

text \<open>
  The promise of \<open>execute\<close>: the listeners on the stream, folded over the events. The
  first event that settles the promise decides; later events change nothing.
\<close>

fun settle :: "stream_event list \<Rightarrow> string \<Rightarrow> string \<Rightarrow> inspect_outcome \<Rightarrow> error + string" where
  "settle [] output errorOutput insp = Inl (Error ''Command execution timeout'')"
| "settle (Data chunk # evs) output errorOutput insp =
     (if chunk \<noteq> [] \<and> hd chunk = CHR 0x01 then settle evs (output @ drop 8 chunk) errorOutput insp
      else if chunk \<noteq> [] \<and> hd chunk = CHR 0x02 then settle evs output (errorOutput @ drop 8 chunk) insp
      else settle evs (output @ chunk) errorOutput insp)"
| "settle (End # evs) output errorOutput insp =
     (case insp of
        InspectFails m \<Rightarrow> Inl (Error m)
      | ExitCode c \<Rightarrow>
          if c \<noteq> 0
          then Inl (Error (''Command failed with exit code '' @ show_int c @ '': ''
                            @ (if errorOutput \<noteq> [] then errorOutput else output)))
          else Inr (trim output))"
| "settle (StreamError m # evs) output errorOutput insp = Inl (Error m)"
| "settle (TimerFired # evs) output errorOutput insp = Inl (Error ''Command execution timeout'')"

definition dm_execute :: "'w api \<Rightarrow> handle option \<Rightarrow> string \<Rightarrow> 'w \<Rightarrow> (error + string) \<times> 'w" where
  "dm_execute a container command w =
     (case container of
        None \<Rightarrow> (Inl (Error ''Container not initialized''), w)
      | Some c \<Rightarrow>
          (case container_exec a c command w of
             (ExecThrows m, w') \<Rightarrow>
               (Inl (Error (''Failed to execute command '' @ [CHR 0x22] @ command @ [CHR 0x22]
                            @ '': '' @ m)), w')
           | (ExecStream evs insp, w') \<Rightarrow> (settle evs [] [] insp, w')))"

text \<open>
  \<open>getFile\<close> waits for the archive stream to end and then reads the file with
  \<open>base64\<close> through \<open>execute\<close>. It has no timer of its own: the archive stream is taken
  to end or to fail.
\<close>

definition dm_getFile :: "'w api \<Rightarrow> handle option \<Rightarrow> string \<Rightarrow> 'w \<Rightarrow> (error + string) \<times> 'w" where
  "dm_getFile a container containerPath w =
     (case container of
        None \<Rightarrow> (Inl (Error ''Container not initialized''), w)
      | Some c \<Rightarrow>
          (case container_getArchive a c containerPath w of
             (ArchiveThrows m, w') \<Rightarrow>
               (Inl (Error (''Failed to get file '' @ [CHR 0x22] @ containerPath @ [CHR 0x22]
                            @ '': '' @ m)), w')
           | (ArchiveError m, w') \<Rightarrow> (Inl (Error m), w')
           | (ArchiveEnd, w') \<Rightarrow> dm_execute a container (''base64 '' @ containerPath) w'))"

definition setupCommands :: "string list" where
  "setupCommands =
     [''apt-get update'',
      ''apt-get install -y wget curl gnupg2 software-properties-common apt-transport-https ca-certificates'',
      ''apt-get install -y xvfb x11vnc xdotool scrot'',
      ''apt-get install -y fonts-liberation libasound2 libatk-bridge2.0-0 libdrm2 libxkbcommon0 libxss1 libgtk-3-0 libxrandr2 libu2f-udev libvulkan1'',
      ''wget -q -O - https://dl-ssl.google.com/linux/linux_signing_key.pub | apt-key add -'',
      ''echo '' @ [CHR 0x22] @ ''deb [arch=amd64] http://dl.google.com/linux/chrome/deb/ stable main''
         @ [CHR 0x22] @ '' >> /etc/apt/sources.list.d/google.list'',
      ''apt-get update'',
      ''apt-get install -y google-chrome-stable'',
      ''mkdir -p /workspace'',
      ''Xvfb :99 -screen 0 1280x720x24 > /dev/null 2>&1 &'',
      ''sleep 3'',
      ''export DISPLAY=:99 && xdpyinfo >/dev/null 2>&1'']"

text \<open>
  The \<open>for\<close> loop of \<open>setupContainerEnvironment\<close>: each command runs inside its own
  \<open>try\<close>, whose \<open>catch\<close> only writes to the console.
\<close>

fun run_commands :: "'w api \<Rightarrow> handle option \<Rightarrow> string list \<Rightarrow> 'w \<Rightarrow> (error + unit) \<times> 'w" where
  "run_commands a container [] w = (Inr (), w)"
| "run_commands a container (command # rest) w =
     (case dm_execute a container command w of
        (Inl e, w') \<Rightarrow> run_commands a container rest w'
      | (Inr out, w') \<Rightarrow> run_commands a container rest w')"

definition setupContainerEnvironment :: "'w api \<Rightarrow> handle option \<Rightarrow> 'w \<Rightarrow> (error + unit) \<times> 'w" where
  "setupContainerEnvironment a container w = run_commands a container setupCommands w"

definition initialize_failed :: "error \<Rightarrow> error" where
  "initialize_failed e = Error (''Failed to initialize Docker container: '' @ message e)"

text \<open>
  \<open>initialize\<close> returns the outcome, the value of \<open>this.container\<close> afterwards and the
  world. A failed \<open>pull\<close> is caught; everything else is inside the outer \<open>try\<close>.
\<close>

definition dm_initialize ::
  "'w api \<Rightarrow> string \<Rightarrow> handle option \<Rightarrow> 'w \<Rightarrow> (error + unit) \<times> handle option \<times> 'w" where
  "dm_initialize a containerName container w =
     (let w1 = snd (docker_pull a w) in
      case docker_createContainer a containerName w1 of
        (Inl e, w2) \<Rightarrow> (Inl (initialize_failed e), container, w2)
      | (Inr c, w2) \<Rightarrow>
          (case container_start a c w2 of
             (Inl e, w3) \<Rightarrow> (Inl (initialize_failed e), Some c, w3)
           | (Inr u, w3) \<Rightarrow>
               (case setupContainerEnvironment a (Some c) w3 of
                  (Inl e, w4) \<Rightarrow> (Inl (initialize_failed e), Some c, w4)
                | (Inr u', w4) \<Rightarrow> (Inr (), Some c, w4))))"

text \<open>
  \<open>cleanup\<close>: nothing to do without a container; otherwise stop, then remove, each in
  its own \<open>try\<close>, and \<open>this.container = null\<close> in the \<open>finally\<close>.
\<close>

definition dm_cleanup :: "'w api \<Rightarrow> handle option \<Rightarrow> 'w \<Rightarrow> (error + unit) \<times> handle option \<times> 'w" where
  "dm_cleanup a container w =
     (case container of
        None \<Rightarrow> (Inr (), None, w)
      | Some c \<Rightarrow>
          (let w1 = snd (container_stop a c w);
               w2 = snd (container_remove a c w1)
           in (Inr (), None, w2)))"

section \<open>State of a run\<close>

text \<open>
  The options object handed to the classes, the screenshot records of the trail and the
  fields of the objects of one run. A run uses either \<open>container\<close> (the DockerManager
  of ComputerUse) or \<open>browser\<close> and \<open>page\<close> (PuppeteerComputerUse). The log is the
  sequence of messages passed to \<open>addLog\<close>; the time prefix of each line is left out.
  \<open>teardowns\<close> is bookkeeping of the model: it counts the calls of \<open>cleanup\<close>, and no
  function reads it.
\<close>

record test_options =
  timeout :: int
  takeScreenshots :: bool
  websiteUrl :: string

record screenshot =
  step :: string
  timestamp :: nat
  image_base64 :: string

record 'w state =
  container :: "handle option"
  browser :: "handle option"
  page :: "handle option"
  screenshots :: "screenshot list"
  log :: "string list"
  teardowns :: nat
  world :: 'w

datatype executionMode = Docker | Puppeteer

definition display_width :: nat where "display_width = 1280"
definition display_height :: nat where "display_height = 720"
definition maxIterations :: nat where "maxIterations = 20"

definition the_websiteUrl :: "test_options \<Rightarrow> string" where
  "the_websiteUrl opts = (if websiteUrl opts = [] then ''app.giftround.com'' else websiteUrl opts)"

definition addLog :: "string \<Rightarrow> 'w state \<Rightarrow> 'w state" where
  "addLog m s = s\<lparr>log := log s @ [m]\<rparr>"

text \<open>What reading a property of \<open>null\<close> or \<open>undefined\<close> throws (the engine's wording).\<close>

definition null_deref :: string where
  "null_deref = ''Cannot read properties of null''"

definition undefined_deref :: string where
  "undefined_deref = ''Cannot read properties of undefined''"

definition js_str :: "string option \<Rightarrow> string" where
  "js_str v = (case v of None \<Rightarrow> ''undefined'' | Some t \<Rightarrow> t)"

definition js_num :: "int list \<Rightarrow> nat \<Rightarrow> int option" where
  "js_num xs i = (if i < length xs then Some (xs ! i) else None)"

definition js_elem :: "int list \<Rightarrow> nat \<Rightarrow> string" where
  "js_elem xs i = (case js_num xs i of None \<Rightarrow> ''undefined'' | Some n \<Rightarrow> show_int n)"

definition screenshot_failed :: "error \<Rightarrow> error" where
  "screenshot_failed e = Error (''Failed to take screenshot: '' @ message e)"

definition navigate_failed :: "error \<Rightarrow> error" where
  "navigate_failed e = Error (''Failed to navigate to website: '' @ message e)"

section \<open>ComputerUse: the container backend\<close>

definition cu_takeScreenshotForClaude ::
  "'w api \<Rightarrow> handle option \<Rightarrow> 'w \<Rightarrow> (error + string) \<times> 'w" where
  "cu_takeScreenshotForClaude a dockerManager w =
     (let filename = ''/tmp/screenshot_'' @ digits (now a w) @ ''.png'' in
      case dm_execute a dockerManager (''export DISPLAY=:99 && scrot '' @ filename) w of
        (Inl e, w1) \<Rightarrow> (Inl (screenshot_failed e), w1)
      | (Inr out, w1) \<Rightarrow>
          (case dm_getFile a dockerManager filename w1 of
             (Inl e, w2) \<Rightarrow> (Inl (screenshot_failed e), w2)
           | (Inr screenshotData, w2) \<Rightarrow>
               (case dm_execute a dockerManager (''rm -f '' @ filename) w2 of
                  (Inl e, w3) \<Rightarrow> (Inl (screenshot_failed e), w3)
                | (Inr out', w3) \<Rightarrow> (Inr screenshotData, w3))))"

definition cu_captureScreenshot ::
  "'w api \<Rightarrow> test_options \<Rightarrow> string \<Rightarrow> 'w state \<Rightarrow> screenshot option \<times> 'w state" where
  "cu_captureScreenshot a opts label s =
     (if \<not> takeScreenshots opts then (None, s)
      else
        (case cu_takeScreenshotForClaude a (container s) (world s) of
           (Inl e, w') \<Rightarrow>
             (None, addLog (''Failed to capture screenshot: '' @ message e) (s\<lparr>world := w'\<rparr>))
         | (Inr screenshotData, w') \<Rightarrow>
             (let shot = \<lparr>step = label, timestamp = now a w',
                          image_base64 = ''data:image/png;base64,'' @ screenshotData\<rparr>
              in (Some shot,
                  addLog (''Screenshot captured: '' @ label)
                    (s\<lparr>world := w', screenshots := screenshots s @ [shot]\<rparr>)))))"

definition cu_navigate_command :: "string \<Rightarrow> string" where
  "cu_navigate_command site =
     ''export DISPLAY=:99 && Xvfb :99 -screen 0 1280x720x24 & && sleep 2 && ''
     @ ''google-chrome --no-sandbox --disable-dev-shm-usage --remote-debugging-port=9222 --start-maximized ''
     @ [CHR 0x22] @ ''https://'' @ site @ [CHR 0x22] @ '' & && sleep 5''"

definition cu_navigateToWebsite ::
  "'w api \<Rightarrow> test_options \<Rightarrow> 'w state \<Rightarrow> (error + unit) \<times> 'w state" where
  "cu_navigateToWebsite a opts s =
     (let s0 = addLog (''Navigating to '' @ the_websiteUrl opts) s in
      case dm_execute a (container s0) (cu_navigate_command (the_websiteUrl opts)) (world s0) of
        (Inl e, w1) \<Rightarrow> (Inl (navigate_failed e), s0\<lparr>world := w1\<rparr>)
      | (Inr out, w1) \<Rightarrow>
          (let s1 = s0\<lparr>world := w1\<rparr>;
               s2 = (if takeScreenshots opts
                     then snd (cu_captureScreenshot a opts (''Navigated to '' @ the_websiteUrl opts) s1)
                     else s1)
           in (Inr (), addLog (''Successfully navigated to '' @ the_websiteUrl opts) s2)))"

definition cu_getComputerUseTools :: "tool_decl list" where
  "cu_getComputerUseTools =
     [ComputerTool ''computer_20250124'' display_width display_height,
      NamedTool ''bash'' ''bash'',
      NamedTool ''text_editor'' ''text_editor'']"

text \<open>\<open>text.replace(/'/g, "'\"'\"'")\<close>: every single quote becomes the five characters.\<close>

definition shell_escape :: "string \<Rightarrow> string" where
  "shell_escape t =
     concat (map (\<lambda>c. if c = CHR 0x27 then [CHR 0x27, CHR 0x22, CHR 0x27, CHR 0x22, CHR 0x27] else [c]) t)"

definition cu_handleComputerAction ::
  "'w api \<Rightarrow> test_options \<Rightarrow> tool_input \<Rightarrow> 'w state \<Rightarrow> (error + string) \<times> 'w state" where
  "cu_handleComputerAction a opts input s =
     (if in_action input = Some ''screenshot'' then
        (case cu_takeScreenshotForClaude a (container s) (world s) of
           (Inl e, w1) \<Rightarrow> (Inl e, s\<lparr>world := w1\<rparr>)
         | (Inr shot, w1) \<Rightarrow>
             (let s1 = s\<lparr>world := w1\<rparr>;
                  s2 = (if takeScreenshots opts
                        then snd (cu_captureScreenshot a opts ''Screenshot taken'' s1) else s1)
              in (Inr ''Screenshot taken'', s2)))
      else if in_action input = Some ''click'' then
        (case in_coordinate input of
           None \<Rightarrow> (Inl (Error undefined_deref), s)
         | Some coordinate \<Rightarrow>
             (case dm_execute a (container s)
                     (''export DISPLAY=:99 && xdotool mousemove '' @ js_elem coordinate 0 @ '' ''
                      @ js_elem coordinate 1 @ '' click 1'') (world s) of
                (Inl e, w1) \<Rightarrow> (Inl e, s\<lparr>world := w1\<rparr>)
              | (Inr out, w1) \<Rightarrow>
                  (Inr (''Clicked at ('' @ js_elem coordinate 0 @ '', '' @ js_elem coordinate 1 @ '')''),
                   addLog (''Clicked at coordinates ('' @ js_elem coordinate 0 @ '', ''
                           @ js_elem coordinate 1 @ '')'') (s\<lparr>world := w1\<rparr>))))
      else if in_action input = Some ''type'' then
        (case in_text input of
           None \<Rightarrow> (Inl (Error undefined_deref), s)
         | Some t \<Rightarrow>
             (case dm_execute a (container s)
                     (''export DISPLAY=:99 && xdotool type '' @ [CHR 0x27] @ shell_escape t @ [CHR 0x27])
                     (world s) of
                (Inl e, w1) \<Rightarrow> (Inl e, s\<lparr>world := w1\<rparr>)
              | (Inr out, w1) \<Rightarrow> (Inr (''Typed: '' @ t), addLog (''Typed: '' @ t) (s\<lparr>world := w1\<rparr>))))
      else if in_action input = Some ''key'' then
        (case dm_execute a (container s)
                (''export DISPLAY=:99 && xdotool key '' @ js_str (in_key input)) (world s) of
           (Inl e, w1) \<Rightarrow> (Inl e, s\<lparr>world := w1\<rparr>)
         | (Inr out, w1) \<Rightarrow>
             (Inr (''Pressed key: '' @ js_str (in_key input)),
              addLog (''Pressed key: '' @ js_str (in_key input)) (s\<lparr>world := w1\<rparr>)))
      else if in_action input = Some ''scroll'' then
        (let scrollDirection = (if in_direction input = Some ''down'' then ''5'' else ''4'') in
         case in_coordinate input of
           None \<Rightarrow> (Inl (Error undefined_deref), s)
         | Some scrollCoord \<Rightarrow>
             (case dm_execute a (container s)
                     (''export DISPLAY=:99 && xdotool mousemove '' @ js_elem scrollCoord 0 @ '' ''
                      @ js_elem scrollCoord 1 @ '' click '' @ scrollDirection) (world s) of
                (Inl e, w1) \<Rightarrow> (Inl e, s\<lparr>world := w1\<rparr>)
              | (Inr out, w1) \<Rightarrow>
                  (Inr (''Scrolled '' @ js_str (in_direction input)),
                   addLog (''Scrolled '' @ js_str (in_direction input) @ '' at (''
                           @ js_elem scrollCoord 0 @ '', '' @ js_elem scrollCoord 1 @ '')'')
                     (s\<lparr>world := w1\<rparr>))))
      else (Inl (Error (''Unknown computer action: '' @ js_str (in_action input))), s))"

definition cu_handleBashAction ::
  "'w api \<Rightarrow> tool_input \<Rightarrow> 'w state \<Rightarrow> (error + string) \<times> 'w state" where
  "cu_handleBashAction a input s =
     (let s0 = addLog (''Executing bash: '' @ js_str (in_command input)) s in
      case dm_execute a (container s0) (''export DISPLAY=:99 && '' @ js_str (in_command input)) (world s0) of
        (Inl e, w1) \<Rightarrow> (Inr (''Error executing command: '' @ message e), s0\<lparr>world := w1\<rparr>)
      | (Inr result, w1) \<Rightarrow>
          (Inr (if result = [] then ''Command executed successfully'' else result), s0\<lparr>world := w1\<rparr>))"

definition cu_handleTextEditorAction ::
  "tool_input \<Rightarrow> 'w state \<Rightarrow> (error + string) \<times> 'w state" where
  "cu_handleTextEditorAction input s =
     (Inr ''Text editor not available in web testing context'',
      addLog ''Text editor action not implemented for web testing'' s)"

text \<open>The \<open>switch\<close> on the tool name inside \<open>try\<close>; the \<open>catch\<close> turns what was thrown into text.\<close>

definition tool_failed :: "error \<Rightarrow> 'w state \<Rightarrow> (error + string) \<times> 'w state" where
  "tool_failed e s = (Inr (''Error: '' @ message e), addLog (''Tool execution failed: '' @ message e) s)"

definition cu_executeComputerUseTool ::
  "'w api \<Rightarrow> test_options \<Rightarrow> tool_use \<Rightarrow> 'w state \<Rightarrow> (error + string) \<times> 'w state" where
  "cu_executeComputerUseTool a opts toolUse s =
     (case (if tu_name toolUse = ''computer'' then cu_handleComputerAction a opts (tu_input toolUse) s
            else if tu_name toolUse = ''bash'' then cu_handleBashAction a (tu_input toolUse) s
            else if tu_name toolUse = ''text_editor'' then cu_handleTextEditorAction (tu_input toolUse) s
            else (Inl (Error (''Unknown tool: '' @ tu_name toolUse)), s)) of
        (Inl e, s') \<Rightarrow> tool_failed e s'
      | (Inr r, s') \<Rightarrow> (Inr r, s'))"

section \<open>PuppeteerComputerUse: the browser backend\<close>

definition pcu_initializeBrowser :: "'w api \<Rightarrow> 'w state \<Rightarrow> (error + unit) \<times> 'w state" where
  "pcu_initializeBrowser a s =
     (let s0 = addLog ''Initializing Puppeteer browser'' s;
          failed = (\<lambda>e. Error (''Failed to initialize browser: '' @ message e))
      in
      case puppeteer_launch a (world s0) of
        (Inl e, w1) \<Rightarrow> (Inl (failed e), s0\<lparr>world := w1\<rparr>)
      | (Inr b, w1) \<Rightarrow>
          (case browser_newPage a b w1 of
             (Inl e, w2) \<Rightarrow> (Inl (failed e), s0\<lparr>world := w2, browser := Some b\<rparr>)
           | (Inr p, w2) \<Rightarrow>
               (case page_call a p (SetViewport display_width display_height) w2 of
                  (Inl e, w3) \<Rightarrow> (Inl (failed e), s0\<lparr>world := w3, browser := Some b, page := Some p\<rparr>)
                | (Inr u, w3) \<Rightarrow>
                    (Inr (), addLog ''Puppeteer browser initialized successfully''
                               (s0\<lparr>world := w3, browser := Some b, page := Some p\<rparr>)))))"

definition pcu_takeScreenshotForClaude ::
  "'w api \<Rightarrow> handle option \<Rightarrow> 'w \<Rightarrow> (error + string) \<times> 'w" where
  "pcu_takeScreenshotForClaude a pg w =
     (case pg of
        None \<Rightarrow> (Inl (screenshot_failed (Error null_deref)), w)
      | Some p \<Rightarrow>
          (case page_call a p TakeScreenshot w of
             (Inl e, w1) \<Rightarrow> (Inl (screenshot_failed e), w1)
           | (Inr shot, w1) \<Rightarrow> (Inr shot, w1)))"

definition pcu_captureScreenshot ::
  "'w api \<Rightarrow> test_options \<Rightarrow> string \<Rightarrow> 'w state \<Rightarrow> screenshot option \<times> 'w state" where
  "pcu_captureScreenshot a opts label s =
     (if \<not> takeScreenshots opts \<or> page s = None \<or> browser s = None then (None, s)
      else
        (case pcu_takeScreenshotForClaude a (page s) (world s) of
           (Inl e, w') \<Rightarrow>
             (None, addLog (''Failed to capture screenshot: '' @ message e) (s\<lparr>world := w'\<rparr>))
         | (Inr screenshotData, w') \<Rightarrow>
             (let shot = \<lparr>step = label, timestamp = now a w',
                          image_base64 = ''data:image/png;base64,'' @ screenshotData\<rparr>
              in (Some shot,
                  addLog (''Screenshot captured: '' @ label)
                    (s\<lparr>world := w', screenshots := screenshots s @ [shot]\<rparr>)))))"

definition pcu_navigateToWebsite ::
  "'w api \<Rightarrow> test_options \<Rightarrow> 'w state \<Rightarrow> (error + unit) \<times> 'w state" where
  "pcu_navigateToWebsite a opts s =
     (let s0 = addLog (''Navigating to '' @ the_websiteUrl opts) s in
      case page s0 of
        None \<Rightarrow> (Inl (navigate_failed (Error null_deref)), s0)
      | Some p \<Rightarrow>
          (case page_call a p (Goto (''https://'' @ the_websiteUrl opts)) (world s0) of
             (Inl e, w1) \<Rightarrow> (Inl (navigate_failed e), s0\<lparr>world := w1\<rparr>)
           | (Inr out, w1) \<Rightarrow>
               (let s1 = s0\<lparr>world := w1\<rparr>;
                    s2 = (if takeScreenshots opts
                          then snd (pcu_captureScreenshot a opts (''Navigated to '' @ the_websiteUrl opts) s1)
                          else s1)
                in (Inr (), addLog (''Successfully navigated to '' @ the_websiteUrl opts) s2))))"

definition pcu_getComputerUseTools :: "tool_decl list" where
  "pcu_getComputerUseTools = [ComputerTool ''computer_20241022'' display_width display_height]"

definition keyMap :: "string \<Rightarrow> string option" where
  "keyMap k =
     (if k = ''Return'' then Some ''Enter''
      else if k = ''Tab'' then Some ''Tab''
      else if k = ''Escape'' then Some ''Escape''
      else if k = ''BackSpace'' then Some ''Backspace''
      else if k = ''Delete'' then Some ''Delete''
      else if k = ''Up'' then Some ''ArrowUp''
      else if k = ''Down'' then Some ''ArrowDown''
      else if k = ''Left'' then Some ''ArrowLeft''
      else if k = ''Right'' then Some ''ArrowRight''
      else None)"

definition puppeteerKey :: "string option \<Rightarrow> string option" where
  "puppeteerKey key =
     (case key of
        None \<Rightarrow> None
      | Some k \<Rightarrow> (case keyMap k of Some mapped \<Rightarrow> Some mapped | None \<Rightarrow> Some k))"

text \<open>
  One call on \<open>this.page\<close> inside \<open>handleComputerAction\<close>: with no page the member
  access throws.
\<close>

definition on_page :: "'w api \<Rightarrow> page_op \<Rightarrow> 'w state \<Rightarrow> (error + string) \<times> 'w state" where
  "on_page a op s =
     (case page s of
        None \<Rightarrow> (Inl (Error null_deref), s)
      | Some p \<Rightarrow> (case page_call a p op (world s) of (r, w1) \<Rightarrow> (r, s\<lparr>world := w1\<rparr>)))"

definition pcu_handleComputerAction ::
  "'w api \<Rightarrow> test_options \<Rightarrow> tool_input \<Rightarrow> 'w state \<Rightarrow> (error + string) \<times> 'w state" where
  "pcu_handleComputerAction a opts input s =
     (if in_action input = Some ''screenshot'' then
        (case pcu_takeScreenshotForClaude a (page s) (world s) of
           (Inl e, w1) \<Rightarrow> (Inl e, s\<lparr>world := w1\<rparr>)
         | (Inr shot, w1) \<Rightarrow>
             (let s1 = s\<lparr>world := w1\<rparr>;
                  s2 = (if takeScreenshots opts
                        then snd (pcu_captureScreenshot a opts ''Screenshot taken'' s1) else s1)
              in (Inr ''Screenshot taken'', s2)))
      else if in_action input = Some ''click'' then
        (if page s = None then (Inl (Error null_deref), s)
         else
           (case in_coordinate input of
              None \<Rightarrow> (Inl (Error undefined_deref), s)
            | Some coordinate \<Rightarrow>
                (case on_page a (MouseClick (js_num coordinate 0) (js_num coordinate 1)) s of
                   (Inl e, s1) \<Rightarrow> (Inl e, s1)
                 | (Inr out, s1) \<Rightarrow>
                     (Inr (''Clicked at ('' @ js_elem coordinate 0 @ '', '' @ js_elem coordinate 1 @ '')''),
                      addLog (''Clicked at coordinates ('' @ js_elem coordinate 0 @ '', ''
                              @ js_elem coordinate 1 @ '')'') s1))))
      else if in_action input = Some ''type'' then
        (case on_page a (KeyboardType (in_text input)) s of
           (Inl e, s1) \<Rightarrow> (Inl e, s1)
         | (Inr out, s1) \<Rightarrow>
             (Inr (''Typed: '' @ js_str (in_text input)),
              addLog (''Typed: '' @ js_str (in_text input)) s1))
      else if in_action input = Some ''key'' then
        (case on_page a (KeyboardPress (puppeteerKey (in_key input))) s of
           (Inl e, s1) \<Rightarrow> (Inl e, s1)
         | (Inr out, s1) \<Rightarrow>
             (Inr (''Pressed key: '' @ js_str (in_key input)),
              addLog (''Pressed key: '' @ js_str (in_key input)) s1))
      else if in_action input = Some ''scroll'' then
        (let clicks = (case in_clicks input of None \<Rightarrow> 3 | Some n \<Rightarrow> n);
             delta = (if in_direction input = Some ''down'' then 120 else - 120)
         in
         if page s = None then (Inl (Error null_deref), s)
         else
           (case in_coordinate input of
              None \<Rightarrow> (Inl (Error undefined_deref), s)
            | Some scrollCoord \<Rightarrow>
                (case on_page a (MouseMove (js_num scrollCoord 0) (js_num scrollCoord 1)) s of
                   (Inl e, s1) \<Rightarrow> (Inl e, s1)
                 | (Inr out, s1) \<Rightarrow>
                     (case on_page a (MouseWheel (delta * clicks)) s1 of
                        (Inl e, s2) \<Rightarrow> (Inl e, s2)
                      | (Inr out', s2) \<Rightarrow>
                          (Inr (''Scrolled '' @ js_str (in_direction input)),
                           addLog (''Scrolled '' @ js_str (in_direction input) @ '' at (''
                                   @ js_elem scrollCoord 0 @ '', '' @ js_elem scrollCoord 1 @ '')'')
                             s2)))))
      else (Inl (Error (''Unknown computer action: '' @ js_str (in_action input))), s))"

definition pcu_executeComputerUseTool ::
  "'w api \<Rightarrow> test_options \<Rightarrow> tool_use \<Rightarrow> 'w state \<Rightarrow> (error + string) \<times> 'w state" where
  "pcu_executeComputerUseTool a opts toolUse s =
     (case (if tu_name toolUse = ''computer'' then pcu_handleComputerAction a opts (tu_input toolUse) s
            else (Inl (Error (''Unknown tool: '' @ tu_name toolUse)), s)) of
        (Inl e, s') \<Rightarrow> tool_failed e s'
      | (Inr r, s') \<Rightarrow> (Inr r, s'))"

text \<open>
  \<open>cleanup\<close>: with a browser, \<open>close\<close> inside \<open>try\<close>; the two fields are set to \<open>null\<close>
  after the \<open>await\<close>, so only when \<open>close\<close> did not throw.
\<close>

definition pcu_cleanup :: "'w api \<Rightarrow> 'w state \<Rightarrow> (error + unit) \<times> 'w state" where
  "pcu_cleanup a s =
     (let s0 = s\<lparr>teardowns := teardowns s + 1\<rparr> in
      case browser s0 of
        None \<Rightarrow> (Inr (), s0)
      | Some b \<Rightarrow>
          (case browser_close a b (world s0) of
             (Inl e, w1) \<Rightarrow> (Inr (), addLog (''Failed to close browser: '' @ message e) (s0\<lparr>world := w1\<rparr>))
           | (Inr u, w1) \<Rightarrow>
               (Inr (), addLog ''Browser closed successfully''
                          (s0\<lparr>world := w1, browser := None, page := None\<rparr>))))"

section \<open>The agent loop\<close>

text \<open>
  \<open>runClaudeWithComputerUse\<close> is the same text in both classes but for the methods it
  calls and one line of the first message; the model has it once, with the class as
  \<open>executionMode\<close>, and the methods dispatched on it.
\<close>

definition takeScreenshotForClaude ::
  "executionMode \<Rightarrow> 'w api \<Rightarrow> 'w state \<Rightarrow> (error + string) \<times> 'w" where
  "takeScreenshotForClaude mode a s =
     (case mode of
        Docker \<Rightarrow> cu_takeScreenshotForClaude a (container s) (world s)
      | Puppeteer \<Rightarrow> pcu_takeScreenshotForClaude a (page s) (world s))"

definition getComputerUseTools :: "executionMode \<Rightarrow> tool_decl list" where
  "getComputerUseTools mode =
     (case mode of Docker \<Rightarrow> cu_getComputerUseTools | Puppeteer \<Rightarrow> pcu_getComputerUseTools)"

definition executeComputerUseTool ::
  "executionMode \<Rightarrow> 'w api \<Rightarrow> test_options \<Rightarrow> tool_use \<Rightarrow> 'w state \<Rightarrow> (error + string) \<times> 'w state" where
  "executeComputerUseTool mode a opts toolUse s =
     (case mode of
        Docker \<Rightarrow> cu_executeComputerUseTool a opts toolUse s
      | Puppeteer \<Rightarrow> pcu_executeComputerUseTool a opts toolUse s)"

fun join_lines :: "string list \<Rightarrow> string" where
  "join_lines [] = []"
| "join_lines [l] = l"
| "join_lines (l # ls) = l @ [CHR 0x0A] @ join_lines ls"

definition first_message :: "executionMode \<Rightarrow> string \<Rightarrow> string \<Rightarrow> string" where
  "first_message mode site instruction =
     join_lines
       ([''You are controlling a web browser to test features on '' @ site @ ''. '',
         ''        '',
         ''The browser is already open and displaying the website. Please execute this instruction:'',
         [],
         [CHR 0x22] @ instruction @ [CHR 0x22],
         [],
         ''Guidelines:'',
         ''- Take screenshots frequently to show progress'',
         ''- Be thorough but efficient '',
         ''- If you encounter errors, try alternative approaches'',
         ''- Explain what you'' @ [CHR 0x27] @ ''re doing at each step'',
         ''- Focus only on '' @ site @ '' - do not navigate away'',
         ''- The display resolution is 1280x720'',
         []]
        @ (case mode of
             Docker \<Rightarrow> []
           | Puppeteer \<Rightarrow> [''Available actions: screenshot, click, type, key, scroll'', []])
        @ [''Current browser status: Open and displaying '' @ site])"

fun find_text :: "block list \<Rightarrow> string option" where
  "find_text [] = None"
| "find_text (TextBlock t # bs) = Some t"
| "find_text (b # bs) = find_text bs"

fun find_tool_use :: "block list \<Rightarrow> tool_use option" where
  "find_tool_use [] = None"
| "find_tool_use (ToolUseBlock t # bs) = Some t"
| "find_tool_use (b # bs) = find_tool_use bs"

definition agent_request :: "executionMode \<Rightarrow> nat \<Rightarrow> turn list \<Rightarrow> string \<Rightarrow> request" where
  "agent_request mode iteration messages lastScreenshot =
     \<lparr>model = ''claude-sonnet-4-20250514'',
      max_tokens = 4096,
      tools = getComputerUseTools mode,
      req_messages = messages @
        [(Assistant, Plain (if iteration = 1
            then ''I can see the browser is open. Let me analyze the current state and proceed with the instruction.''
            else ''Continuing with the task...'')),
         (User, ImageAndText lastScreenshot (if iteration = 1
            then ''Here is the current screenshot. Please proceed with the instruction.''
            else ''Here is the updated screenshot. Please continue.''))]\<rparr>"

datatype flow = Continue | Break

text \<open>
  The body of the \<open>try\<close> inside the \<open>while\<close>, for the value \<open>iteration\<close> has after its
  increment. It returns how the body ends, the \<open>messages\<close> array and the state.
\<close>

definition iteration_body ::
  "executionMode \<Rightarrow> 'w api \<Rightarrow> test_options \<Rightarrow> nat \<Rightarrow> turn list \<Rightarrow> 'w state
     \<Rightarrow> (error + flow) \<times> turn list \<times> 'w state" where
  "iteration_body mode a opts iteration messages s =
     (case takeScreenshotForClaude mode a s of
        (Inl e, w1) \<Rightarrow> (Inl e, messages, s\<lparr>world := w1\<rparr>)
      | (Inr lastScreenshot, w1) \<Rightarrow>
          (case messages_create a (agent_request mode iteration messages lastScreenshot) w1 of
             (Inl e, w2) \<Rightarrow> (Inl e, messages, s\<lparr>world := w2\<rparr>)
           | (Inr response, w2) \<Rightarrow>
               (let s2 = (case find_text response of
                            Some textContent \<Rightarrow> addLog (''Claude: '' @ textContent) (s\<lparr>world := w2\<rparr>)
                          | None \<Rightarrow> s\<lparr>world := w2\<rparr>)
                in
                case find_tool_use response of
                  Some toolUse \<Rightarrow>
                    (case executeComputerUseTool mode a opts toolUse s2 of
                       (Inl e, s3) \<Rightarrow> (Inl e, messages, s3)
                     | (Inr toolResult, s3) \<Rightarrow>
                         (Inr Continue,
                          messages @ [(Assistant, Blocks response),
                                      (User, ToolResult (tu_id toolUse) toolResult)],
                          s3))
                | None \<Rightarrow> (Inr Break, messages, addLog ''Claude indicates task completion'' s2))))"

text \<open>
  The \<open>while\<close> statement, from the values of \<open>iteration\<close> and \<open>messages\<close> at its head.
  It ends by the \<open>throw\<close> of the \<open>catch\<close> (\<open>Inl\<close>), or by \<open>break\<close> or a false condition
  (\<open>Inr\<close>); the final \<open>iteration\<close> and \<open>messages\<close> are returned with the state.
\<close>

function while_loop ::
  "executionMode \<Rightarrow> 'w api \<Rightarrow> test_options \<Rightarrow> nat \<Rightarrow> turn list \<Rightarrow> 'w state
     \<Rightarrow> (error + unit) \<times> nat \<times> turn list \<times> 'w state" where
  "while_loop mode a opts iteration messages s =
     (if iteration < maxIterations then
        (case iteration_body mode a opts (iteration + 1) messages
                (addLog (''Claude iteration '' @ digits (iteration + 1)) s) of
           (Inl e, messages', s') \<Rightarrow>
             (Inl e, iteration + 1, messages',
              addLog (''Error in iteration '' @ digits (iteration + 1) @ '': '' @ message e) s')
         | (Inr Break, messages', s') \<Rightarrow> (Inr (), iteration + 1, messages', s')
         | (Inr Continue, messages', s') \<Rightarrow> while_loop mode a opts (iteration + 1) messages' s')
      else (Inr (), iteration, messages, s))"
  by pat_completeness auto
termination
  by (relation "measure (\<lambda>(mode, a, opts, iteration, messages, s). maxIterations - iteration)") auto

declare while_loop.simps [simp del]

record loop_result =
  iterations :: nat
  completed :: bool

definition max_iterations_error :: error where
  "max_iterations_error = Error (''Maximum iterations ('' @ digits maxIterations @ '') reached'')"

text \<open>The statements after the \<open>while\<close>.\<close>

definition after_loop ::
  "(error + unit) \<times> nat \<times> turn list \<times> 'w state \<Rightarrow> (error + loop_result) \<times> nat \<times> turn list \<times> 'w state" where
  "after_loop r =
     (case r of
        (Inl e, iteration, messages, s) \<Rightarrow> (Inl e, iteration, messages, s)
      | (Inr u, iteration, messages, s) \<Rightarrow>
          (if iteration \<ge> maxIterations then (Inl max_iterations_error, iteration, messages, s)
           else (Inr \<lparr>iterations = iteration, completed = True\<rparr>, iteration, messages, s)))"

definition runClaudeWithComputerUse ::
  "executionMode \<Rightarrow> 'w api \<Rightarrow> test_options \<Rightarrow> string \<Rightarrow> 'w state
     \<Rightarrow> (error + loop_result) \<times> nat \<times> turn list \<times> 'w state" where
  "runClaudeWithComputerUse mode a opts instruction s =
     after_loop
       (while_loop mode a opts 0
          [(User, Plain (first_message mode (the_websiteUrl opts) instruction))] s)"

section \<open>execute\<close>

record execute_result =
  r_screenshots :: "screenshot list"
  r_log :: "string list"
  r_result :: loop_result

text \<open>The \<open>return\<close> of \<open>execute\<close> after the loop, and its \<open>catch\<close>.\<close>

definition execute_finish ::
  "(error + loop_result) \<times> nat \<times> turn list \<times> 'w state \<Rightarrow> (error + execute_result) \<times> 'w state" where
  "execute_finish r =
     (case r of
        (Inl e, iteration, messages, s) \<Rightarrow> (Inl e, s)
      | (Inr result, iteration, messages, s) \<Rightarrow>
          (let s' = addLog ''Execution completed successfully'' s
           in (Inr \<lparr>r_screenshots = screenshots s', r_log = log s', r_result = result\<rparr>, s')))"

definition execute_catch :: "(error + execute_result) \<times> 'w state \<Rightarrow> (error + execute_result) \<times> 'w state" where
  "execute_catch r =
     (case r of
        (Inl e, s) \<Rightarrow> (Inl e, addLog (''Execution failed: '' @ message e) s)
      | (Inr v, s) \<Rightarrow> (Inr v, s))"

definition cu_execute ::
  "'w api \<Rightarrow> test_options \<Rightarrow> string \<Rightarrow> 'w state \<Rightarrow> (error + execute_result) \<times> 'w state" where
  "cu_execute a opts instruction s =
     (let s0 = addLog (''Starting execution: '' @ instruction) s;
          s1 = (if takeScreenshots opts then snd (cu_captureScreenshot a opts ''Initial state'' s0) else s0)
      in execute_catch
           (case cu_navigateToWebsite a opts s1 of
              (Inl e, s2) \<Rightarrow> (Inl e, s2)
            | (Inr u, s2) \<Rightarrow> execute_finish (runClaudeWithComputerUse Docker a opts instruction s2)))"

definition pcu_execute ::
  "'w api \<Rightarrow> test_options \<Rightarrow> string \<Rightarrow> 'w state \<Rightarrow> (error + execute_result) \<times> 'w state" where
  "pcu_execute a opts instruction s =
     (let s0 = addLog (''Starting execution with Puppeteer: '' @ instruction) s in
      case execute_catch
             (case pcu_initializeBrowser a s0 of
                (Inl e, s1) \<Rightarrow> (Inl e, s1)
              | (Inr u, s1) \<Rightarrow>
                  (case pcu_navigateToWebsite a opts s1 of
                     (Inl e, s2) \<Rightarrow> (Inl e, s2)
                   | (Inr u', s2) \<Rightarrow>
                       (let s3 = (if takeScreenshots opts
                                  then snd (pcu_captureScreenshot a opts ''Initial state'' s2) else s2)
                        in execute_finish (runClaudeWithComputerUse Puppeteer a opts instruction s3)))) of
        (r, s4) \<Rightarrow>
          (case pcu_cleanup a s4 of
             (Inl e, s5) \<Rightarrow> (Inl e, s5)
           | (Inr u, s5) \<Rightarrow> (r, s5)))"

section \<open>runTest\<close>

text \<open>
  What \<open>runTest\<close> returns and what it throws; the duration, the test id and the time
  stamp are left out.
\<close>

record test_success =
  t_message :: string
  t_screenshots :: "screenshot list"
  t_log :: "string list"
  t_executionMode :: executionMode

record test_failure =
  f_message :: string
  f_screenshots :: "screenshot list"
  f_executionMode :: executionMode

definition new_run :: "'w \<Rightarrow> 'w state" where
  "new_run w = \<lparr>container = None, browser = None, page = None, screenshots = [], log = [],
                teardowns = 0, world = w\<rparr>"

definition test_succeeded :: "executionMode \<Rightarrow> string \<Rightarrow> execute_result \<Rightarrow> test_success" where
  "test_succeeded mode instruction result =
     \<lparr>t_message = ''Successfully completed: '' @ instruction,
      t_screenshots = r_screenshots result, t_log = r_log result, t_executionMode = mode\<rparr>"

text \<open>The \<open>catch\<close> of \<open>runTest\<close> once \<open>computerUse\<close> exists: it asks it for one more screenshot.\<close>

definition test_failed ::
  "executionMode \<Rightarrow> 'w api \<Rightarrow> test_options \<Rightarrow> error \<Rightarrow> 'w state \<Rightarrow> (test_failure + test_success) \<times> 'w state" where
  "test_failed mode a opts e s =
     (case (case mode of
              Docker \<Rightarrow> cu_captureScreenshot a opts ''Error state'' s
            | Puppeteer \<Rightarrow> pcu_captureScreenshot a opts ''Error state'' s) of
        (errorScreenshot, s') \<Rightarrow>
          (Inl \<lparr>f_message = message e,
                f_screenshots = (case errorScreenshot of None \<Rightarrow> [] | Some shot \<Rightarrow> [shot]),
                f_executionMode = mode\<rparr>, s'))"

text \<open>
  The \<open>finally\<close> of \<open>runTest\<close>: in docker mode \<open>dockerManager.cleanup()\<close> inside a
  \<open>try\<close>; nothing in puppeteer mode, where \<open>execute\<close> has cleaned up itself.
\<close>

definition runTest_finally ::
  "executionMode \<Rightarrow> 'w api \<Rightarrow> (test_failure + test_success) \<times> 'w state
     \<Rightarrow> (test_failure + test_success) \<times> 'w state" where
  "runTest_finally mode a r =
     (case mode of
        Puppeteer \<Rightarrow> r
      | Docker \<Rightarrow>
          (case r of
             (v, s) \<Rightarrow>
               (case dm_cleanup a (container s) (world s) of
                  (cleaned, c, w') \<Rightarrow>
                    (v, s\<lparr>container := c, world := w', teardowns := teardowns s + 1\<rparr>))))"

definition runTest ::
  "'w api \<Rightarrow> string \<Rightarrow> string \<Rightarrow> test_options \<Rightarrow> executionMode \<Rightarrow> 'w
     \<Rightarrow> (test_failure + test_success) \<times> 'w state" where
  "runTest a testId instruction opts mode w =
     runTest_finally mode a
       (case mode of
          Docker \<Rightarrow>
            (case dm_initialize a (''computer-use-test-'' @ testId) None w of
               (Inl e, c, w1) \<Rightarrow>
                 (Inl \<lparr>f_message = message e, f_screenshots = [], f_executionMode = mode\<rparr>,
                  (new_run w1)\<lparr>container := c\<rparr>)
             | (Inr u, c, w1) \<Rightarrow>
                 (case cu_execute a opts instruction ((new_run w1)\<lparr>container := c\<rparr>) of
                    (Inl e, s) \<Rightarrow> test_failed mode a opts e s
                  | (Inr result, s) \<Rightarrow> (Inr (test_succeeded mode instruction result), s)))
        | Puppeteer \<Rightarrow>
            (case pcu_execute a opts instruction (new_run w) of
               (Inl e, s) \<Rightarrow> test_failed mode a opts e s
             | (Inr result, s) \<Rightarrow> (Inr (test_succeeded mode instruction result), s)))"

section \<open>The handler's options\<close>

text \<open>
  \<open>CONFIG\<close> is read from the environment. The \<open>options\<close> of the request body carry
  each of the three fields or not; \<open>testOptions\<close> is the object literal of the handler:
  the three computed fields first, then the spread of \<open>options\<close> over them. The deadline
  of the timer in \<open>Promise.race\<close> is \<open>testOptions.timeout * 1000\<close>.
\<close>

record config =
  MAX_TEST_DURATION :: int
  WEBSITE_URL :: string

record request_options =
  o_timeout :: "int option"
  o_takeScreenshots :: "bool option"
  o_websiteUrl :: "string option"

definition computed_options :: "config \<Rightarrow> request_options \<Rightarrow> test_options" where
  "computed_options cfg options =
     \<lparr>timeout = min (case o_timeout options of
                       None \<Rightarrow> MAX_TEST_DURATION cfg
                     | Some t \<Rightarrow> if t = 0 then MAX_TEST_DURATION cfg else t)
                    (MAX_TEST_DURATION cfg),
      takeScreenshots = (o_takeScreenshots options \<noteq> Some False),
      websiteUrl = WEBSITE_URL cfg\<rparr>"

definition spread :: "request_options \<Rightarrow> test_options \<Rightarrow> test_options" where
  "spread options t =
     \<lparr>timeout = (case o_timeout options of None \<Rightarrow> timeout t | Some v \<Rightarrow> v),
      takeScreenshots = (case o_takeScreenshots options of None \<Rightarrow> takeScreenshots t | Some v \<Rightarrow> v),
      websiteUrl = (case o_websiteUrl options of None \<Rightarrow> websiteUrl t | Some v \<Rightarrow> v)\<rparr>"

definition testOptions :: "config \<Rightarrow> request_options \<Rightarrow> test_options" where
  "testOptions cfg options = spread options (computed_options cfg options)"

definition race_deadline_ms :: "config \<Rightarrow> request_options \<Rightarrow> int" where
  "race_deadline_ms cfg options = timeout (testOptions cfg options) * 1000"

section \<open>The handler's race\<close>

text \<open>
  The handler awaits \<open>Promise.race\<close> of \<open>runTest\<close> and of a timer whose callback rejects
  with \<open>Error('Test timeout')\<close>. Which of the two settles first is a parameter of the
  model. \<open>TimerFiresAfter k\<close> stands for the timer firing when \<open>runTest\<close> has started \<open>k\<close> of
  its calls to the outside world and has not settled: the timer's callback can only run
  while \<open>runTest\<close> waits at an \<open>await\<close>. When \<open>runTest\<close> settles first, the handler
  answers 200 with the result or, from its \<open>catch\<close>, 500 with the \<open>message\<close> of what
  \<open>runTest\<close> threw. When the timer fires first, the same \<open>catch\<close> answers 500 with
  \<open>Test timeout\<close>. Nothing cancels \<open>runTest\<close>: it goes on to its own \<open>finally\<close>
  whichever way the race went, and the \<open>finally\<close> of the handler only deletes the test
  id from \<open>activeTests\<close>. \<open>handler\<close> is the handler from the race on (the checks of the
  request before it are left out): it returns the answer and the state of the run once
  \<open>runTest\<close> has settled. Of the answer, the status code and the fields \<open>success\<close> and
  \<open>error\<close> of the body are kept.
\<close>

datatype race = RunTestSettlesFirst | TimerFiresAfter nat

record response =
  statusCode :: nat
  body_success :: bool
  body_error :: "string option"

definition handler_answer :: "race \<Rightarrow> test_failure + test_success \<Rightarrow> response" where
  "handler_answer race settled =
     (case race of
        TimerFiresAfter k \<Rightarrow>
          \<lparr>statusCode = 500, body_success = False, body_error = Some ''Test timeout''\<rparr>
      | RunTestSettlesFirst \<Rightarrow>
          (case settled of
             Inr testResult \<Rightarrow> \<lparr>statusCode = 200, body_success = True, body_error = None\<rparr>
           | Inl thrown \<Rightarrow>
               \<lparr>statusCode = 500, body_success = False, body_error = Some (f_message thrown)\<rparr>))"

definition handler ::
  "'w api \<Rightarrow> config \<Rightarrow> string \<Rightarrow> string \<Rightarrow> request_options \<Rightarrow> executionMode \<Rightarrow> race \<Rightarrow> 'w
     \<Rightarrow> response \<times> 'w state" where
  "handler a cfg testId instruction options mode race w =
     (case runTest a testId instruction (testOptions cfg options) mode w of
        (settled, s) \<Rightarrow> (handler_answer race settled, s))"

section \<open>Notions used to state the properties\<close>

text \<open>
  The text \<open>execute\<close> has accumulated in \<open>output\<close> and in \<open>errorOutput\<close> after a sequence
  of data chunks: a chunk whose first byte is 1 adds what follows its first 8
  characters to \<open>output\<close>, one whose first byte is 2 adds it to \<open>errorOutput\<close>, and any
  other chunk is added to \<open>output\<close> whole.
\<close>

definition stdout_text :: "string list \<Rightarrow> string" where
  "stdout_text chunks =
     concat (map (\<lambda>chunk. if chunk \<noteq> [] \<and> hd chunk = CHR 0x01 then drop 8 chunk
                          else if chunk \<noteq> [] \<and> hd chunk = CHR 0x02 then [] else chunk) chunks)"

definition stderr_text :: "string list \<Rightarrow> string" where
  "stderr_text chunks =
     concat (map (\<lambda>chunk. if chunk \<noteq> [] \<and> hd chunk = CHR 0x02 then drop 8 chunk else []) chunks)"

text \<open>
  Demultiplexing as the specification words it, on the bytes of the stream whatever the
  chunks they arrive in. Docker sends frames: a header of 8 bytes, the first the tag of
  the stream (1 standard output, 2 standard error) and the last four the length of the
  payload, most significant byte first; then the payload. \<open>demultiplex\<close> cuts the bytes
  into frames by these lengths; the demultiplexed text of a stream is the payloads of the
  frames with its tag, in order.
\<close>

definition frame_size :: "string \<Rightarrow> nat" where
  "frame_size bs = foldl (\<lambda>n c. n * 256 + of_char c) 0 (take 4 (drop 4 bs))"

function demultiplex :: "string \<Rightarrow> (char \<times> string) list" where
  "demultiplex bs =
     (if length bs < 8 then []
      else (hd bs, take (frame_size bs) (drop 8 bs)) # demultiplex (drop (8 + frame_size bs) bs))"
  by pat_completeness auto
termination
  by (relation "measure length") auto

declare demultiplex.simps [simp del]

definition demultiplexed_stdout :: "string \<Rightarrow> string" where
  "demultiplexed_stdout bs = concat (map snd (filter (\<lambda>f. fst f = CHR 0x01) (demultiplex bs)))"

definition demultiplexed_stderr :: "string \<Rightarrow> string" where
  "demultiplexed_stderr bs = concat (map snd (filter (\<lambda>f. fst f = CHR 0x02) (demultiplex bs)))"

text \<open>A chunk that is exactly one frame of the standard output or of the standard error.\<close>

definition whole_frame :: "string \<Rightarrow> bool" where
  "whole_frame chunk =
     (8 \<le> length chunk \<and> (hd chunk = CHR 0x01 \<or> hd chunk = CHR 0x02)
      \<and> frame_size chunk = length chunk - 8)"

text \<open>Conditions on the outside world under which a run meets no failure of its own.\<close>

definition commands_succeed :: "'w api \<Rightarrow> bool" where
  "commands_succeed a = (\<forall>c command w. \<exists>out w'. dm_execute a (Some c) command w = (Inr out, w'))"

definition archives_end :: "'w api \<Rightarrow> bool" where
  "archives_end a = (\<forall>c path w. \<exists>w'. container_getArchive a c path w = (ArchiveEnd, w'))"

definition browser_cooperates :: "'w api \<Rightarrow> bool" where
  "browser_cooperates a =
     ((\<forall>w. \<exists>b w'. puppeteer_launch a w = (Inr b, w'))
      \<and> (\<forall>b w. \<exists>p w'. browser_newPage a b w = (Inr p, w'))
      \<and> (\<forall>p op w. \<exists>r w'. page_call a p op w = (Inr r, w')))"

definition screenshots_succeed :: "executionMode \<Rightarrow> 'w api \<Rightarrow> bool" where
  "screenshots_succeed mode a =
     (\<forall>h w. \<exists>shot w'.
        (case mode of
           Docker \<Rightarrow> cu_takeScreenshotForClaude a (Some h) w
         | Puppeteer \<Rightarrow> pcu_takeScreenshotForClaude a (Some h) w) = (Inr shot, w'))"

text \<open>The backend of the mode has its handle: a container, or a page.\<close>

definition ready :: "executionMode \<Rightarrow> 'w state \<Rightarrow> bool" where
  "ready mode s = (case mode of Docker \<Rightarrow> container s \<noteq> None | Puppeteer \<Rightarrow> page s \<noteq> None)"

text \<open>An agent that asks for a tool in every response, and one that never does.\<close>

definition always_tool_use :: "'w api \<Rightarrow> bool" where
  "always_tool_use a =
     (\<forall>req w. \<exists>response w'. messages_create a req w = (Inr response, w')
                              \<and> find_tool_use response \<noteq> None)"

definition completes_at_once :: "'w api \<Rightarrow> bool" where
  "completes_at_once a =
     (\<forall>req w. \<exists>response w'. messages_create a req w = (Inr response, w')
                              \<and> find_tool_use response = None)"

text \<open>
  The fields no method but \<open>initializeBrowser\<close> and \<open>cleanup\<close> assigns, and the counter
  of teardowns.
\<close>

definition same_backend :: "'w state \<Rightarrow> 'w state \<Rightarrow> bool" where
  "same_backend s s' =
     (container s' = container s \<and> browser s' = browser s \<and> page s' = page s
      \<and> teardowns s' = teardowns s)"

text \<open>
  To observe which calls a run makes to the outside world, and in which order:
  \<open>traced a\<close> is \<open>a\<close> on worlds that carry the list of the calls made so far, each call
  doing what it does in \<open>a\<close> and adding its name to the list. \<open>teardown_calls\<close> counts the
  calls that remove a container or close a browser. \<open>calls_when_answered\<close> is the part
  of the calls of a run that have been started when the handler answers.
\<close>

datatype call =
  MessagesCreate | DockerPull | CreateContainer | ContainerStart | ContainerExec | GetArchive
  | ContainerStop | ContainerRemove | PuppeteerLaunch | NewPage | PageCall | BrowserClose

definition traced :: "'w api \<Rightarrow> ('w \<times> call list) api" where
  "traced a =
     \<lparr>now = (\<lambda>wt. now a (fst wt)),
      messages_create = (\<lambda>req wt. (fst (messages_create a req (fst wt)),
          snd (messages_create a req (fst wt)), snd wt @ [MessagesCreate])),
      docker_pull = (\<lambda>wt. (fst (docker_pull a (fst wt)),
          snd (docker_pull a (fst wt)), snd wt @ [DockerPull])),
      docker_createContainer = (\<lambda>name wt. (fst (docker_createContainer a name (fst wt)),
          snd (docker_createContainer a name (fst wt)), snd wt @ [CreateContainer])),
      container_start = (\<lambda>c wt. (fst (container_start a c (fst wt)),
          snd (container_start a c (fst wt)), snd wt @ [ContainerStart])),
      container_exec = (\<lambda>c command wt. (fst (container_exec a c command (fst wt)),
          snd (container_exec a c command (fst wt)), snd wt @ [ContainerExec])),
      container_getArchive = (\<lambda>c path wt. (fst (container_getArchive a c path (fst wt)),
          snd (container_getArchive a c path (fst wt)), snd wt @ [GetArchive])),
      container_stop = (\<lambda>c wt. (fst (container_stop a c (fst wt)),
          snd (container_stop a c (fst wt)), snd wt @ [ContainerStop])),
      container_remove = (\<lambda>c wt. (fst (container_remove a c (fst wt)),
          snd (container_remove a c (fst wt)), snd wt @ [ContainerRemove])),
      puppeteer_launch = (\<lambda>wt. (fst (puppeteer_launch a (fst wt)),
          snd (puppeteer_launch a (fst wt)), snd wt @ [PuppeteerLaunch])),
      browser_newPage = (\<lambda>b wt. (fst (browser_newPage a b (fst wt)),
          snd (browser_newPage a b (fst wt)), snd wt @ [NewPage])),
      page_call = (\<lambda>p op wt. (fst (page_call a p op (fst wt)),
          snd (page_call a p op (fst wt)), snd wt @ [PageCall])),
      browser_close = (\<lambda>b wt. (fst (browser_close a b (fst wt)),
          snd (browser_close a b (fst wt)), snd wt @ [BrowserClose]))\<rparr>"

definition calls :: "('w \<times> call list) state \<Rightarrow> call list" where
  "calls s = snd (world s)"

definition teardown_calls :: "call list \<Rightarrow> nat" where
  "teardown_calls cs = length (filter (\<lambda>c. c = ContainerRemove \<or> c = BrowserClose) cs)"

definition removals :: "('w \<times> call list) state \<Rightarrow> nat" where
  "removals s = teardown_calls (calls s)"

definition calls_when_answered :: "race \<Rightarrow> call list \<Rightarrow> call list" where
  "calls_when_answered race cs =
     (case race of RunTestSettlesFirst \<Rightarrow> cs | TimerFiresAfter k \<Rightarrow> take k cs)"

text \<open>
  The turns after the first come in pairs: an agent turn whose content holds a tool
  invocation, then a user turn whose tool result carries that invocation's identifier.
\<close>

fun paired :: "turn list \<Rightarrow> bool" where
  "paired [] = True"
| "paired ((Assistant, Blocks response) # (User, ToolResult i r) # rest) =
     (case find_tool_use response of
        None \<Rightarrow> False
      | Some toolUse \<Rightarrow> tu_id toolUse = i \<and> paired rest)"
| "paired ms = False"

section \<open>Worlds for the examples\<close>

text \<open>
  A world that counts the agent's responses and records the commands and the page calls
  it receives. The interface takes the agent's response by number, what Docker does for
  a command, and what closing the browser answers; everything else succeeds.
\<close>

record sim =
  agent_calls :: nat
  commands :: "string list"
  page_ops :: "page_op list"

definition sim0 :: sim where
  "sim0 = \<lparr>agent_calls = 0, commands = [], page_ops = []\<rparr>"

definition sim_api :: "(nat \<Rightarrow> block list) \<Rightarrow> (string \<Rightarrow> exec_run) \<Rightarrow> error + unit \<Rightarrow> sim api" where
  "sim_api agent docker closing =
     \<lparr>now = (\<lambda>w. 0),
      messages_create = (\<lambda>req w. (Inr (agent (agent_calls w)), w\<lparr>agent_calls := agent_calls w + 1\<rparr>)),
      docker_pull = (\<lambda>w. (Inr (), w)),
      docker_createContainer = (\<lambda>name w. (Inr 1, w)),
      container_start = (\<lambda>c w. (Inr (), w)),
      container_exec = (\<lambda>c command w. (docker command, w\<lparr>commands := commands w @ [command]\<rparr>)),
      container_getArchive = (\<lambda>c path w. (ArchiveEnd, w)),
      container_stop = (\<lambda>c w. (Inr (), w)),
      container_remove = (\<lambda>c w. (Inr (), w)),
      puppeteer_launch = (\<lambda>w. (Inr 1, w)),
      browser_newPage = (\<lambda>b w. (Inr 2, w)),
      page_call = (\<lambda>p op w. (Inr ''iVBORw0KGgo='', w\<lparr>page_ops := page_ops w @ [op]\<rparr>)),
      browser_close = (\<lambda>b w. (closing, w))\<rparr>"

definition answers :: "stream_event list \<Rightarrow> inspect_outcome \<Rightarrow> string \<Rightarrow> exec_run" where
  "answers evs insp command = ExecStream evs insp"

definition exits_with :: "int \<Rightarrow> string \<Rightarrow> exec_run" where
  "exits_with code command = ExecStream [End] (ExitCode code)"

text \<open>The frame Docker sends for the standard output of \<open>echo hi\<close>.\<close>

definition hi_frame :: string where
  "hi_frame = [CHR 0x01, CHR 0x00, CHR 0x00, CHR 0x00, CHR 0x00, CHR 0x00, CHR 0x00, CHR 0x03,
               CHR ''h'', CHR ''i'', CHR 0x0A]"

text \<open>A frame of the standard error stream.\<close>

definition err_frame :: string where
  "err_frame = [CHR 0x02, CHR 0x00, CHR 0x00, CHR 0x00, CHR 0x00, CHR 0x00, CHR 0x00, CHR 0x04,
                CHR ''f'', CHR ''a'', CHR ''i'', CHR ''l'']"

definition no_input :: tool_input where
  "no_input = \<lparr>in_action = None, in_coordinate = None, in_text = None, in_key = None,
               in_direction = None, in_clicks = None, in_command = None\<rparr>"

definition opts0 :: test_options where
  "opts0 = \<lparr>timeout = 300, takeScreenshots = True, websiteUrl = ''app.giftround.com''\<rparr>"

text \<open>Tool invocations and agents of the examples, and the state of a run whose backend is up.\<close>

definition key_press :: tool_use where
  "key_press = \<lparr>tu_id = ''toolu_01'', tu_name = ''computer'',
                tu_input = no_input\<lparr>in_action := Some ''key'', in_key := Some ''Return''\<rparr>\<rparr>"

definition click_at :: "int \<Rightarrow> int \<Rightarrow> tool_use" where
  "click_at x y = \<lparr>tu_id = ''toolu_02'', tu_name = ''computer'',
                   tu_input = no_input\<lparr>in_action := Some ''click'', in_coordinate := Some [x, y]\<rparr>\<rparr>"

definition scroll_down_at :: "int \<Rightarrow> int \<Rightarrow> tool_use" where
  "scroll_down_at x y = \<lparr>tu_id = ''toolu_06'', tu_name = ''computer'',
                         tu_input = no_input\<lparr>in_action := Some ''scroll'', in_coordinate := Some [x, y],
                                             in_direction := Some ''down''\<rparr>\<rparr>"

definition bash_ls :: tool_use where
  "bash_ls = \<lparr>tu_id = ''toolu_03'', tu_name = ''bash'',
              tu_input = no_input\<lparr>in_command := Some ''ls''\<rparr>\<rparr>"

definition unknown_tool :: tool_use where
  "unknown_tool = \<lparr>tu_id = ''toolu_04'', tu_name = ''browser'', tu_input = no_input\<rparr>"

definition unknown_action :: tool_use where
  "unknown_action = \<lparr>tu_id = ''toolu_05'', tu_name = ''computer'',
                     tu_input = no_input\<lparr>in_action := Some ''drag''\<rparr>\<rparr>"

text \<open>
  \<open>silent\<close> answers with no block at all; \<open>always_pressing\<close> asks for a key press in every
  response; \<open>finishing_at i\<close> asks for one in its first \<open>i - 1\<close> responses and answers with
  text alone from response \<open>i\<close> on; \<open>click_then_done\<close> asks for a click at (640, 360)
  first and then answers with text alone.
\<close>

definition silent :: "nat \<Rightarrow> block list" where
  "silent n = []"

definition always_pressing :: "nat \<Rightarrow> block list" where
  "always_pressing n = [ToolUseBlock key_press]"

definition finishing_at :: "nat \<Rightarrow> nat \<Rightarrow> block list" where
  "finishing_at i n = (if n + 1 < i then [ToolUseBlock key_press] else [TextBlock ''Done.''])"

definition click_then_done :: "nat \<Rightarrow> block list" where
  "click_then_done n =
     (if n = 0 then [TextBlock ''I will click the middle of the page.'', ToolUseBlock (click_at 640 360)]
      else [TextBlock ''Done.''])"

definition browser_run :: "sim state" where
  "browser_run = (new_run sim0)\<lparr>browser := Some 1, page := Some 2\<rparr>"

definition container_run :: "sim state" where
  "container_run = (new_run sim0)\<lparr>container := Some 1\<rparr>"

text \<open>A world in which only the check of the display, the last provisioning command, fails.\<close>

definition display_down :: "string \<Rightarrow> exec_run" where
  "display_down command =
     (if command = ''export DISPLAY=:99 && xdpyinfo >/dev/null 2>&1''
      then exits_with 1 command else exits_with 0 command)"

text \<open>
  The configuration and the request options of the examples, which give \<open>opts0\<close>, and a run
  whose browser is up in a world that records the calls.
\<close>

definition config0 :: config where
  "config0 = \<lparr>MAX_TEST_DURATION = 300, WEBSITE_URL = ''app.giftround.com''\<rparr>"

definition no_options :: request_options where
  "no_options = \<lparr>o_timeout = None, o_takeScreenshots = None, o_websiteUrl = None\<rparr>"

definition traced_browser_run :: "(sim \<times> call list) state" where
  "traced_browser_run = (new_run (sim0, []))\<lparr>browser := Some 1, page := Some 2\<rparr>"

section \<open>DockerManager.execute\<close>

lemma settle_data:
  "settle (map Data chunks @ evs) out err insp =
   settle evs (out @ stdout_text chunks) (err @ stderr_text chunks) insp"
  by (induction chunks arbitrary: out err) (auto simp: stdout_text_def stderr_text_def)

lemma settle_data_only:
  "settle (map Data chunks) out err insp = Inl (Error ''Command execution timeout'')"
  using settle_data [of chunks "[]" out err insp] by simp

lemma execute_accumulates:
  assumes "container_exec a c command w = (ExecStream evs insp, w')"
  shows "(evs = map Data chunks @ End # rest \<and> insp = ExitCode 0 \<longrightarrow>
            dm_execute a (Some c) command w = (Inr (trim (stdout_text chunks)), w'))
       \<and> (evs = map Data chunks @ End # rest \<and> insp = ExitCode k \<and> k \<noteq> 0 \<longrightarrow>
            dm_execute a (Some c) command w =
              (Inl (Error (''Command failed with exit code '' @ show_int k @ '': ''
                           @ (if stderr_text chunks \<noteq> [] then stderr_text chunks
                              else stdout_text chunks))), w'))
       \<and> (evs = map Data chunks @ TimerFired # rest \<or> evs = map Data chunks \<longrightarrow>
            dm_execute a (Some c) command w = (Inl (Error ''Command execution timeout''), w'))"
  using assms by (auto simp: dm_execute_def settle_data settle_data_only)

text \<open>
  When every chunk is one whole frame, what \<open>execute\<close> accumulates chunk by chunk is the
  demultiplexed text of the stream.
\<close>

lemma demultiplex_whole_frame:
  assumes "whole_frame chunk"
  shows "demultiplex (chunk @ rest) = (hd chunk, drop 8 chunk) # demultiplex rest"
proof -
  have len: "8 \<le> length chunk" and size: "frame_size chunk = length chunk - 8"
    using assms by (simp_all add: whole_frame_def)
  then have ne: "chunk \<noteq> []" by auto
  have "frame_size (chunk @ rest) = frame_size chunk"
    using len by (simp add: frame_size_def)
  then show ?thesis
    using len size ne by (subst demultiplex.simps) simp
qed

lemma texts_of_whole_frames:
  "list_all whole_frame chunks \<Longrightarrow>
     stdout_text chunks = demultiplexed_stdout (concat chunks)
     \<and> stderr_text chunks = demultiplexed_stderr (concat chunks)"
proof (induction chunks)
  case Nil
  then show ?case
    by (simp add: stdout_text_def stderr_text_def demultiplexed_stdout_def
                  demultiplexed_stderr_def demultiplex.simps)
next
  case (Cons chunk chunks)
  then have w: "whole_frame chunk" and rest: "list_all whole_frame chunks" by simp_all
  have ne: "chunk \<noteq> []" using w by (auto simp: whole_frame_def)
  have tag: "hd chunk = CHR 0x01 \<or> hd chunk = CHR 0x02" using w by (simp add: whole_frame_def)
  show ?case
    using Cons.IH [OF rest] ne tag demultiplex_whole_frame [OF w, of "concat chunks"]
    by (auto simp: stdout_text_def stderr_text_def demultiplexed_stdout_def
                   demultiplexed_stderr_def)
qed

lemma example_frames:
  "whole_frame hi_frame" "whole_frame err_frame"
  "demultiplexed_stdout hi_frame = ''hi'' @ [CHR 0x0A]" "demultiplexed_stderr hi_frame = []"
  "demultiplexed_stdout err_frame = []" "demultiplexed_stderr err_frame = ''fail''"
  by (simp_all add: whole_frame_def frame_size_def demultiplexed_stdout_def
                    demultiplexed_stderr_def demultiplex.simps hi_frame_def err_frame_def)

text \<open>
  C9, as the code has it. When Docker hands \<open>execute\<close> a stream for the command and the
  data chunks of the stream are each one whole frame of the standard output or of the
  standard error: if the stream ends and the exit code is 0, the promise resolves with
  the demultiplexed standard output, trimmed; if the exit code is not 0, it rejects with
  a message that carries the exit code and the demultiplexed standard error, or the
  demultiplexed standard output when the standard error is empty. If the timer fires
  before the stream ends, it rejects with the timeout error, whatever the chunks.
\<close>

theorem execute_outcomes:
  assumes "container_exec a c command w = (ExecStream evs insp, w')"
  shows "(evs = map Data chunks @ End # rest \<and> list_all whole_frame chunks
          \<and> insp = ExitCode 0 \<longrightarrow>
            dm_execute a (Some c) command w
              = (Inr (trim (demultiplexed_stdout (concat chunks))), w'))
       \<and> (evs = map Data chunks @ End # rest \<and> list_all whole_frame chunks
          \<and> insp = ExitCode k \<and> k \<noteq> 0 \<longrightarrow>
            dm_execute a (Some c) command w =
              (Inl (Error (''Command failed with exit code '' @ show_int k @ '': ''
                           @ (if demultiplexed_stderr (concat chunks) \<noteq> []
                              then demultiplexed_stderr (concat chunks)
                              else demultiplexed_stdout (concat chunks)))), w'))
       \<and> (evs = map Data chunks @ TimerFired # rest \<or> evs = map Data chunks \<longrightarrow>
            dm_execute a (Some c) command w = (Inl (Error ''Command execution timeout''), w'))"
proof -
  have "list_all whole_frame chunks \<Longrightarrow>
          stdout_text chunks = demultiplexed_stdout (concat chunks)
          \<and> stderr_text chunks = demultiplexed_stderr (concat chunks)"
    by (rule texts_of_whole_frames)
  then show ?thesis
    using execute_accumulates [OF assms, of chunks rest k] by auto
qed

theorem execute_outcomes_witness:
  "list_all whole_frame [hi_frame] \<and> list_all whole_frame [err_frame]
   \<and> dm_execute (sim_api silent (answers [Data hi_frame, End] (ExitCode 0)) (Inr ()))
      (Some 1) ''echo hi'' sim0
     = (Inr ''hi'', sim0\<lparr>commands := [''echo hi'']\<rparr>)
   \<and> dm_execute (sim_api silent (answers [Data err_frame, End] (ExitCode 2)) (Inr ()))
      (Some 1) ''ls /nowhere'' sim0
     = (Inl (Error ''Command failed with exit code 2: fail''), sim0\<lparr>commands := [''ls /nowhere'']\<rparr>)
   \<and> dm_execute (sim_api silent (answers [Data hi_frame, TimerFired, End] (ExitCode 0)) (Inr ()))
      (Some 1) ''sleep 60'' sim0
     = (Inl (Error ''Command execution timeout''), sim0\<lparr>commands := [''sleep 60'']\<rparr>)"
proof -
  have ran: "container_exec (sim_api silent (answers evs insp) (Inr ())) 1 command sim0
               = (ExecStream evs insp, sim0\<lparr>commands := [command]\<rparr>)" for evs insp command
    by (simp add: sim_api_def sim0_def answers_def)
  have two: "show_int 2 = ''2''"
    by (simp add: show_int_def digits.simps digit_char_def)
  show ?thesis
    using execute_outcomes
            [OF ran [of "[Data hi_frame, End]" "ExitCode 0" "''echo hi''"],
             where chunks = "[hi_frame]" and rest = "[]" and k = 0]
          execute_outcomes
            [OF ran [of "[Data err_frame, End]" "ExitCode 2" "''ls /nowhere''"],
             where chunks = "[err_frame]" and rest = "[]" and k = 2]
          execute_outcomes
            [OF ran [of "[Data hi_frame, TimerFired, End]" "ExitCode 0" "''sleep 60''"],
             where chunks = "[hi_frame]" and rest = "[End]" and k = 0]
    by (simp add: example_frames two trim_def is_space_def)
qed

text \<open>
  C9 as it is stated fails twice. For \<open>echo hi\<close> with exit code 0 the stream is one frame
  of the standard output, its demultiplexed standard output is \<open>hi\<close> and a line feed, and
  \<open>execute\<close> resolves with \<open>hi\<close>: the result is trimmed. For a command that prints \<open>hi\<close>
  and exits with 1, nothing was captured from the standard error, and the message of the
  error carries the standard output.
\<close>

theorem execute_output_counterexample:
  "fst (dm_execute (sim_api silent (answers [Data hi_frame, End] (ExitCode 0)) (Inr ()))
          (Some 1) ''echo hi'' sim0) = Inr ''hi''
   \<and> demultiplexed_stdout (concat [hi_frame]) = ''hi'' @ [CHR 0x0A]
   \<and> Inr ''hi'' \<noteq> (Inr (demultiplexed_stdout (concat [hi_frame])) :: error + string)
   \<and> fst (dm_execute (sim_api silent (answers [Data hi_frame, End] (ExitCode 1)) (Inr ()))
            (Some 1) ''echo hi; false'' sim0)
       = Inl (Error (''Command failed with exit code 1: hi'' @ [CHR 0x0A]))
   \<and> demultiplexed_stderr (concat [hi_frame]) = []"
proof -
  have "fst (dm_execute (sim_api silent (answers [Data hi_frame, End] (ExitCode 0)) (Inr ()))
               (Some 1) ''echo hi'' sim0) = Inr ''hi''"
    by (simp add: dm_execute_def sim_api_def sim0_def answers_def hi_frame_def trim_def
                  is_space_def)
  moreover
  have "fst (dm_execute (sim_api silent (answers [Data hi_frame, End] (ExitCode 1)) (Inr ()))
               (Some 1) ''echo hi; false'' sim0)
          = Inl (Error (''Command failed with exit code 1: hi'' @ [CHR 0x0A]))"
    by (simp add: dm_execute_def sim_api_def sim0_def answers_def hi_frame_def show_int_def
                  digits.simps digit_char_def)
  ultimately show ?thesis
    by (simp add: example_frames)
qed

text \<open>
  Outside that condition \<open>execute\<close> takes every chunk for one frame and never reads the
  length in the header, though its comment says that it handles the multiplexing. When
  Docker delivers the frame of \<open>hi\<close> and a frame of the standard error in one chunk, the
  demultiplexed standard output is \<open>hi\<close> and a line feed, and \<open>execute\<close> resolves with
  this followed by the 8 bytes of the second header and by the text of the standard
  error.
\<close>

lemma execute_two_frames_in_one_chunk:
  "fst (dm_execute (sim_api silent (answers [Data (hi_frame @ err_frame), End] (ExitCode 0)) (Inr ()))
          (Some 1) ''echo hi; echo fail >&2'' sim0)
     = Inr (''hi'' @ [CHR 0x0A, CHR 0x02, CHR 0x00, CHR 0x00, CHR 0x00, CHR 0x00, CHR 0x00,
                      CHR 0x00, CHR 0x04] @ ''fail'')
   \<and> demultiplexed_stdout (hi_frame @ err_frame) = ''hi'' @ [CHR 0x0A]
   \<and> demultiplexed_stderr (hi_frame @ err_frame) = ''fail''"
  by (simp add: dm_execute_def sim_api_def sim0_def answers_def hi_frame_def err_frame_def
                demultiplexed_stdout_def demultiplexed_stderr_def demultiplex.simps
                frame_size_def trim_def is_space_def)

section \<open>DockerManager.initialize\<close>

lemma run_commands_ok: "run_commands a c cmds w = (r, w') \<Longrightarrow> r = Inr ()"
  by (induction cmds arbitrary: w) (auto split: prod.splits sum.splits)

text \<open>
  C5, as the code has it. \<open>initialize\<close> fails exactly when creating or starting the
  container fails, with the error \<open>Failed to initialize Docker container: ...\<close>. No
  command of the provisioning sequence, the final check of the display included, has
  any part in the outcome.
\<close>

theorem initialize_outcome:
  "fst (dm_initialize a name c0 w) =
     (case docker_createContainer a name (snd (docker_pull a w)) of
        (Inl e, w2) \<Rightarrow> Inl (initialize_failed e)
      | (Inr c, w2) \<Rightarrow>
          (case container_start a c w2 of
             (Inl e, w3) \<Rightarrow> Inl (initialize_failed e)
           | (Inr u, w3) \<Rightarrow> Inr ()))"
  by (auto simp: dm_initialize_def setupContainerEnvironment_def Let_def
           split: prod.splits sum.splits dest: run_commands_ok)

text \<open>
  C5 as it is stated fails: in a world where every provisioning command succeeds but
  \<open>xdpyinfo\<close>, the last one, exits with code 1, \<open>initialize\<close> succeeds.
\<close>

theorem readiness_check_counterexample:
  "fst (dm_execute
          (sim_api silent display_down (Inr ()))
          (Some 1) (last setupCommands) sim0)
     = Inl (Error ''Command failed with exit code 1: '')
   \<and> fst (dm_initialize
          (sim_api silent display_down (Inr ()))
          ''computer-use-test-t1'' None sim0)
     = Inr ()"
  by (simp add: dm_initialize_def setupContainerEnvironment_def setupCommands_def dm_execute_def
                sim_api_def sim0_def exits_with_def display_down_def show_int_def digits.simps
                digit_char_def)

section \<open>The handler's options\<close>

text \<open>
  C10. When the options of the request carry a timeout, \<open>testOptions.timeout\<close> is that
  value and the deadline of the race is that value times 1000, whatever
  \<open>MAX_TEST_DURATION\<close> is; a \<open>websiteUrl\<close> in the options likewise replaces the
  configured one.
\<close>

theorem deadline_is_raw_timeout:
  "(o_timeout options = Some t \<longrightarrow>
      timeout (testOptions cfg options) = t \<and> race_deadline_ms cfg options = t * 1000)
   \<and> (o_websiteUrl options = Some u \<longrightarrow> websiteUrl (testOptions cfg options) = u)"
  by (simp add: race_deadline_ms_def testOptions_def spread_def)

theorem deadline_is_raw_timeout_witness:
  "race_deadline_ms \<lparr>MAX_TEST_DURATION = 300, WEBSITE_URL = ''app.giftround.com''\<rparr>
       \<lparr>o_timeout = Some 86400, o_takeScreenshots = None, o_websiteUrl = Some ''example.org''\<rparr>
     = 86400000
   \<and> timeout (computed_options \<lparr>MAX_TEST_DURATION = 300, WEBSITE_URL = ''app.giftround.com''\<rparr>
       \<lparr>o_timeout = Some 86400, o_takeScreenshots = None, o_websiteUrl = Some ''example.org''\<rparr>) = 300
   \<and> websiteUrl (testOptions \<lparr>MAX_TEST_DURATION = 300, WEBSITE_URL = ''app.giftround.com''\<rparr>
       \<lparr>o_timeout = Some 86400, o_takeScreenshots = None, o_websiteUrl = Some ''example.org''\<rparr>)
     = ''example.org''"
  using deadline_is_raw_timeout
    [of "\<lparr>o_timeout = Some 86400, o_takeScreenshots = None, o_websiteUrl = Some ''example.org''\<rparr>"
        86400 "\<lparr>MAX_TEST_DURATION = 300, WEBSITE_URL = ''app.giftround.com''\<rparr>" "''example.org''"]
  by (simp add: computed_options_def)

section \<open>What the methods of a run leave alone\<close>

lemma same_backend_refl [simp]: "same_backend s s"
  by (simp add: same_backend_def)

lemma same_backend_addLog [simp]: "same_backend s (addLog m s') = same_backend s s'"
  by (simp add: same_backend_def addLog_def)

lemma same_backend_world [simp]: "same_backend s (s'\<lparr>world := w\<rparr>) = same_backend s s'"
  by (simp add: same_backend_def)

lemma same_backend_screenshots [simp]: "same_backend s (s'\<lparr>screenshots := x\<rparr>) = same_backend s s'"
  by (simp add: same_backend_def)

lemma same_backend_teardowns: "same_backend s s' \<Longrightarrow> teardowns s' = teardowns s"
  by (simp add: same_backend_def)

lemma ready_same_backend: "same_backend s s' \<Longrightarrow> ready mode s' = ready mode s"
  by (simp add: same_backend_def ready_def split: executionMode.splits)

lemma screenshots_addLog [simp]: "screenshots (addLog m s) = screenshots s"
  by (simp add: addLog_def)

lemma container_addLog [simp]: "container (addLog m s) = container s"
  by (simp add: addLog_def)

lemma page_addLog [simp]: "page (addLog m s) = page s"
  by (simp add: addLog_def)

lemma browser_addLog [simp]: "browser (addLog m s) = browser s"
  by (simp add: addLog_def)

lemma teardowns_addLog [simp]: "teardowns (addLog m s) = teardowns s"
  by (simp add: addLog_def)

lemma cu_captureScreenshot_backend [simp]:
  "same_backend s0 (snd (cu_captureScreenshot a opts l s)) = same_backend s0 s"
  by (simp add: cu_captureScreenshot_def Let_def split: prod.splits sum.splits)

lemma pcu_captureScreenshot_backend [simp]:
  "same_backend s0 (snd (pcu_captureScreenshot a opts l s)) = same_backend s0 s"
  by (simp add: pcu_captureScreenshot_def Let_def split: prod.splits sum.splits)

lemma on_page_backend [simp]: "same_backend s0 (snd (on_page a op s)) = same_backend s0 s"
  by (simp add: on_page_def split: option.splits prod.splits)

lemma cu_handleComputerAction_backend [simp]:
  "same_backend s0 (snd (cu_handleComputerAction a opts i s)) = same_backend s0 s"
  by (simp add: cu_handleComputerAction_def Let_def split: prod.splits sum.splits option.splits)

lemma pcu_handleComputerAction_backend [simp]:
  "same_backend s0 (snd (pcu_handleComputerAction a opts i s)) = same_backend s0 s"
  by (simp add: pcu_handleComputerAction_def Let_def case_prod_beta split: sum.splits option.splits)

lemma cu_handleBashAction_backend [simp]:
  "same_backend s0 (snd (cu_handleBashAction a i s)) = same_backend s0 s"
  by (simp add: cu_handleBashAction_def Let_def case_prod_beta split: sum.splits)

lemma cu_handleTextEditorAction_backend [simp]:
  "same_backend s0 (snd (cu_handleTextEditorAction i s)) = same_backend s0 s"
  by (simp add: cu_handleTextEditorAction_def)

lemma executeComputerUseTool_backend [simp]:
  "same_backend s0 (snd (executeComputerUseTool mode a opts toolUse s)) = same_backend s0 s"
  by (simp add: executeComputerUseTool_def cu_executeComputerUseTool_def
                pcu_executeComputerUseTool_def tool_failed_def case_prod_beta
           split: executionMode.splits sum.splits)

lemma iteration_body_backend [simp]:
  "same_backend s0 (snd (snd (iteration_body mode a opts i ms s))) = same_backend s0 s"
  by (simp add: iteration_body_def Let_def case_prod_beta split: sum.splits option.splits)

lemma cu_navigateToWebsite_backend [simp]:
  "same_backend s0 (snd (cu_navigateToWebsite a opts s)) = same_backend s0 s"
  by (simp add: cu_navigateToWebsite_def Let_def case_prod_beta split: sum.splits)

lemma pcu_navigateToWebsite_backend [simp]:
  "same_backend s0 (snd (pcu_navigateToWebsite a opts s)) = same_backend s0 s"
  by (simp add: pcu_navigateToWebsite_def Let_def case_prod_beta split: sum.splits option.splits)

text \<open>The definitions a run of the examples is evaluated with.\<close>

lemmas sim_defs = sim_api_def sim0_def new_run_def browser_run_def container_run_def exits_with_def
  opts0_def no_input_def key_press_def click_at_def scroll_down_at_def bash_ls_def unknown_tool_def
  unknown_action_def
  silent_def always_pressing_def finishing_at_def click_then_done_def

lemmas run_defs = runClaudeWithComputerUse_def while_loop.simps after_loop_def maxIterations_def
  iteration_body_def takeScreenshotForClaude_def pcu_takeScreenshotForClaude_def
  cu_takeScreenshotForClaude_def dm_execute_def dm_getFile_def trim_def
  executeComputerUseTool_def pcu_executeComputerUseTool_def pcu_handleComputerAction_def
  cu_executeComputerUseTool_def cu_handleComputerAction_def cu_handleBashAction_def
  on_page_def puppeteerKey_def keyMap_def js_str_def js_elem_def js_num_def show_int_def
  addLog_def agent_request_def tool_failed_def
  max_iterations_error_def digits.simps digit_char_def Let_def

section \<open>executeComputerUseTool\<close>

lemma executeComputerUseTool_returns:
  "\<exists>text. fst (executeComputerUseTool mode a opts toolUse s) = Inr text"
  by (simp add: executeComputerUseTool_def cu_executeComputerUseTool_def
                pcu_executeComputerUseTool_def tool_failed_def case_prod_beta
           split: executionMode.splits sum.splits)

lemma iteration_body_continues:
  assumes "takeScreenshotForClaude mode a s = (Inr shot, w1)"
      and "messages_create a (agent_request mode i ms shot) w1 = (Inr response, w2)"
      and "find_tool_use response = Some toolUse"
  shows "fst (iteration_body mode a opts i ms s) = Inr Continue"
proof -
  define s2 where "s2 = (case find_text response of
                            Some textContent \<Rightarrow> addLog (''Claude: '' @ textContent) (s\<lparr>world := w2\<rparr>)
                          | None \<Rightarrow> s\<lparr>world := w2\<rparr>)"
  obtain result s3 where "executeComputerUseTool mode a opts toolUse s2 = (Inr result, s3)"
    using executeComputerUseTool_returns [of mode a opts toolUse s2] by (metis prod.collapse)
  then show ?thesis
    using assms by (simp add: iteration_body_def s2_def)
qed

text \<open>
  C4, as the code has it. For every tool invocation, \<open>executeComputerUseTool\<close> returns text
  and throws nothing. A tool name outside the vocabulary of the backend gives
  \<open>Error: Unknown tool: ...\<close>; an action of the \<open>computer\<close> tool outside its five actions
  gives \<open>Error: Unknown computer action: ...\<close>; an action of the \<open>computer\<close> tool that
  throws gives \<open>Error: \<close> and the message; a \<open>bash\<close> command whose \<open>execute\<close> fails gives
  \<open>Error executing command: \<close> and the message, from the \<open>catch\<close> of \<open>handleBashAction\<close>.
  An iteration whose screenshot and exchange with the agent succeed and whose response
  holds a tool invocation ends by continuing the loop.
\<close>

theorem tool_results_are_text:
  "(\<exists>text. fst (executeComputerUseTool mode a opts toolUse s) = Inr text)
   \<and> (tu_name toolUse \<noteq> ''computer''
        \<and> (mode = Docker \<longrightarrow> tu_name toolUse \<noteq> ''bash'' \<and> tu_name toolUse \<noteq> ''text_editor'')
       \<longrightarrow> fst (executeComputerUseTool mode a opts toolUse s)
             = Inr (''Error: Unknown tool: '' @ tu_name toolUse))
   \<and> (tu_name toolUse = ''computer''
        \<and> in_action (tu_input toolUse) \<noteq> Some ''screenshot''
        \<and> in_action (tu_input toolUse) \<noteq> Some ''click''
        \<and> in_action (tu_input toolUse) \<noteq> Some ''type''
        \<and> in_action (tu_input toolUse) \<noteq> Some ''key''
        \<and> in_action (tu_input toolUse) \<noteq> Some ''scroll''
       \<longrightarrow> fst (executeComputerUseTool mode a opts toolUse s)
             = Inr (''Error: Unknown computer action: '' @ js_str (in_action (tu_input toolUse))))
   \<and> (tu_name toolUse = ''computer''
        \<and> fst (case mode of
                   Docker \<Rightarrow> cu_handleComputerAction a opts (tu_input toolUse) s
                 | Puppeteer \<Rightarrow> pcu_handleComputerAction a opts (tu_input toolUse) s) = Inl e
       \<longrightarrow> fst (executeComputerUseTool mode a opts toolUse s) = Inr (''Error: '' @ message e))
   \<and> (mode = Docker \<and> tu_name toolUse = ''bash''
        \<and> fst (dm_execute a (container s)
                  (''export DISPLAY=:99 && '' @ js_str (in_command (tu_input toolUse))) (world s)) = Inl e
       \<longrightarrow> fst (executeComputerUseTool mode a opts toolUse s)
             = Inr (''Error executing command: '' @ message e))
   \<and> (fst (takeScreenshotForClaude mode a s) = Inr shot
        \<and> fst (messages_create a (agent_request mode i ms shot) (snd (takeScreenshotForClaude mode a s)))
            = Inr response
        \<and> find_tool_use response \<noteq> None
       \<longrightarrow> fst (iteration_body mode a opts i ms s) = Inr Continue)"
proof (intro conjI impI)
  show "\<exists>text. fst (executeComputerUseTool mode a opts toolUse s) = Inr text"
    by (rule executeComputerUseTool_returns)
next
  assume "tu_name toolUse \<noteq> ''computer''
          \<and> (mode = Docker \<longrightarrow> tu_name toolUse \<noteq> ''bash'' \<and> tu_name toolUse \<noteq> ''text_editor'')"
  then show "fst (executeComputerUseTool mode a opts toolUse s)
               = Inr (''Error: Unknown tool: '' @ tu_name toolUse)"
    by (cases mode)
       (simp_all add: executeComputerUseTool_def cu_executeComputerUseTool_def
                      pcu_executeComputerUseTool_def tool_failed_def)
next
  assume "tu_name toolUse = ''computer''
        \<and> in_action (tu_input toolUse) \<noteq> Some ''screenshot''
        \<and> in_action (tu_input toolUse) \<noteq> Some ''click''
        \<and> in_action (tu_input toolUse) \<noteq> Some ''type''
        \<and> in_action (tu_input toolUse) \<noteq> Some ''key''
        \<and> in_action (tu_input toolUse) \<noteq> Some ''scroll''"
  then show "fst (executeComputerUseTool mode a opts toolUse s)
               = Inr (''Error: Unknown computer action: '' @ js_str (in_action (tu_input toolUse)))"
    by (cases mode)
       (simp_all add: executeComputerUseTool_def cu_executeComputerUseTool_def
                      pcu_executeComputerUseTool_def tool_failed_def
                      cu_handleComputerAction_def pcu_handleComputerAction_def)
next
  assume "tu_name toolUse = ''computer''
        \<and> fst (case mode of
                   Docker \<Rightarrow> cu_handleComputerAction a opts (tu_input toolUse) s
                 | Puppeteer \<Rightarrow> pcu_handleComputerAction a opts (tu_input toolUse) s) = Inl e"
  then show "fst (executeComputerUseTool mode a opts toolUse s) = Inr (''Error: '' @ message e)"
    by (cases mode)
       (simp_all add: executeComputerUseTool_def cu_executeComputerUseTool_def
                      pcu_executeComputerUseTool_def tool_failed_def case_prod_beta)
next
  assume "mode = Docker \<and> tu_name toolUse = ''bash''
        \<and> fst (dm_execute a (container s)
                  (''export DISPLAY=:99 && '' @ js_str (in_command (tu_input toolUse))) (world s)) = Inl e"
  then show "fst (executeComputerUseTool mode a opts toolUse s)
               = Inr (''Error executing command: '' @ message e)"
    by (simp add: executeComputerUseTool_def cu_executeComputerUseTool_def cu_handleBashAction_def
                  addLog_def Let_def case_prod_beta)
next
  assume h: "fst (takeScreenshotForClaude mode a s) = Inr shot
        \<and> fst (messages_create a (agent_request mode i ms shot) (snd (takeScreenshotForClaude mode a s)))
            = Inr response
        \<and> find_tool_use response \<noteq> None"
  obtain w1 where shot: "takeScreenshotForClaude mode a s = (Inr shot, w1)"
    using h by (metis prod.collapse)
  obtain w2 where resp: "messages_create a (agent_request mode i ms shot) w1 = (Inr response, w2)"
    using h shot by (metis prod.collapse snd_conv)
  obtain toolUse' where tu: "find_tool_use response = Some toolUse'"
    using h by blast
  show "fst (iteration_body mode a opts i ms s) = Inr Continue"
    by (rule iteration_body_continues [OF shot resp tu])
qed

theorem tool_results_are_text_witness:
  "fst (executeComputerUseTool Docker (sim_api silent (exits_with 0) (Inr ())) opts0
          unknown_tool container_run)
     = Inr ''Error: Unknown tool: browser''
   \<and> fst (executeComputerUseTool Puppeteer (sim_api silent (exits_with 0) (Inr ())) opts0
          unknown_action browser_run)
     = Inr ''Error: Unknown computer action: drag''
   \<and> fst (executeComputerUseTool Docker (sim_api silent (exits_with 1) (Inr ())) opts0
          (click_at 640 360) container_run)
     = Inr ''Error: Command failed with exit code 1: ''
   \<and> fst (executeComputerUseTool Docker (sim_api silent (exits_with 1) (Inr ())) opts0
          bash_ls container_run)
     = Inr ''Error executing command: Command failed with exit code 1: ''
   \<and> fst (iteration_body Puppeteer (sim_api always_pressing (exits_with 0) (Inr ())) opts0
          1 [] browser_run)
     = Inr Continue"
proof (intro conjI)
  show "fst (executeComputerUseTool Docker (sim_api silent (exits_with 0) (Inr ())) opts0
               unknown_tool container_run) = Inr ''Error: Unknown tool: browser''"
    using tool_results_are_text
            [where mode = Docker and toolUse = unknown_tool and s = container_run and opts = opts0
               and a = "sim_api silent (exits_with 0) (Inr ())"]
    by (simp add: unknown_tool_def)
next
  show "fst (executeComputerUseTool Puppeteer (sim_api silent (exits_with 0) (Inr ())) opts0
               unknown_action browser_run) = Inr ''Error: Unknown computer action: drag''"
    using tool_results_are_text
            [where mode = Puppeteer and toolUse = unknown_action and s = browser_run and opts = opts0
               and a = "sim_api silent (exits_with 0) (Inr ())"]
    by (simp add: unknown_action_def no_input_def js_str_def)
next
  have "fst (cu_handleComputerAction (sim_api silent (exits_with 1) (Inr ())) opts0
               (tu_input (click_at 640 360)) container_run)
          = Inl (Error ''Command failed with exit code 1: '')"
    by (simp add: run_defs sim_defs)
  then show "fst (executeComputerUseTool Docker (sim_api silent (exits_with 1) (Inr ())) opts0
               (click_at 640 360) container_run) = Inr ''Error: Command failed with exit code 1: ''"
    using tool_results_are_text
            [where mode = Docker and toolUse = "click_at 640 360" and s = container_run
               and opts = opts0 and a = "sim_api silent (exits_with 1) (Inr ())"
               and e = "Error ''Command failed with exit code 1: ''"]
    by (simp add: click_at_def)
next
  have "fst (dm_execute (sim_api silent (exits_with 1) (Inr ())) (container container_run)
               (''export DISPLAY=:99 && '' @ js_str (in_command (tu_input bash_ls)))
               (world container_run))
          = Inl (Error ''Command failed with exit code 1: '')"
    by (simp add: run_defs sim_defs)
  then show "fst (executeComputerUseTool Docker (sim_api silent (exits_with 1) (Inr ())) opts0
               bash_ls container_run)
             = Inr ''Error executing command: Command failed with exit code 1: ''"
    using tool_results_are_text
            [where mode = Docker and toolUse = bash_ls and s = container_run
               and opts = opts0 and a = "sim_api silent (exits_with 1) (Inr ())"
               and e = "Error ''Command failed with exit code 1: ''"]
    by (simp add: bash_ls_def)
next
  have "fst (takeScreenshotForClaude Puppeteer (sim_api always_pressing (exits_with 0) (Inr ()))
               browser_run) = Inr ''iVBORw0KGgo=''"
    and "fst (messages_create (sim_api always_pressing (exits_with 0) (Inr ()))
               (agent_request Puppeteer 1 [] ''iVBORw0KGgo='')
               (snd (takeScreenshotForClaude Puppeteer
                       (sim_api always_pressing (exits_with 0) (Inr ())) browser_run)))
          = Inr [ToolUseBlock key_press]"
    by (simp_all add: takeScreenshotForClaude_def pcu_takeScreenshotForClaude_def sim_api_def
                      browser_run_def always_pressing_def)
  then show "fst (iteration_body Puppeteer (sim_api always_pressing (exits_with 0) (Inr ())) opts0
               1 [] browser_run) = Inr Continue"
    using tool_results_are_text
            [where mode = Puppeteer and s = browser_run and i = 1 and ms = "[]"
               and a = "sim_api always_pressing (exits_with 0) (Inr ())"
               and shot = "''iVBORw0KGgo=''" and response = "[ToolUseBlock key_press]"
               and opts = opts0]
    by simp
qed

text \<open>
  C4 as it is stated fails: when the \<open>ls\<close> of a \<open>bash\<close> invocation exits with code 1, the
  result is text, but it does not begin with \<open>Error: \<close>.
\<close>

theorem bash_error_text_counterexample:
  "fst (executeComputerUseTool Docker (sim_api silent (exits_with 1) (Inr ())) opts0
          bash_ls container_run)
     = Inr ''Error executing command: Command failed with exit code 1: ''
   \<and> take 7 ''Error executing command: Command failed with exit code 1: '' \<noteq> ''Error: ''"
  by (simp add: run_defs sim_defs)

section \<open>Click coordinates\<close>

text \<open>
  C6, as the code has it. A \<open>click\<close> or a \<open>scroll\<close> with the coordinate pair \<open>(x, y)\<close> is
  actuated at exactly \<open>(x, y)\<close>, for all integers \<open>x\<close> and \<open>y\<close>: the container backend
  runs \<open>xdotool mousemove x y click n\<close>, the browser backend calls
  \<open>page.mouse.click(x, y)\<close> or \<open>page.mouse.move(x, y)\<close> and the wheel, and when those calls
  succeed the result is \<open>Clicked at (x, y)\<close> or \<open>Scrolled <direction>\<close>. Neither handler
  compares the pair with the display dimensions.
\<close>

theorem click_coordinates_unchecked:
  "(in_action i = Some ''click'' \<and> in_coordinate i = Some [x, y]
      \<and> dm_execute a (container s)
           (''export DISPLAY=:99 && xdotool mousemove '' @ show_int x @ '' '' @ show_int y
            @ '' click 1'') (world s) = (Inr out, w1)
     \<longrightarrow> cu_handleComputerAction a opts i s
           = (Inr (''Clicked at ('' @ show_int x @ '', '' @ show_int y @ '')''),
              addLog (''Clicked at coordinates ('' @ show_int x @ '', '' @ show_int y @ '')'')
                (s\<lparr>world := w1\<rparr>)))
   \<and> (in_action i = Some ''click'' \<and> in_coordinate i = Some [x, y] \<and> page s = Some p
      \<and> page_call a p (MouseClick (Some x) (Some y)) (world s) = (Inr out, w1)
     \<longrightarrow> pcu_handleComputerAction a opts i s
           = (Inr (''Clicked at ('' @ show_int x @ '', '' @ show_int y @ '')''),
              addLog (''Clicked at coordinates ('' @ show_int x @ '', '' @ show_int y @ '')'')
                (s\<lparr>world := w1\<rparr>)))
   \<and> (in_action i = Some ''scroll'' \<and> in_coordinate i = Some [x, y]
      \<and> dm_execute a (container s)
           (''export DISPLAY=:99 && xdotool mousemove '' @ show_int x @ '' '' @ show_int y
            @ '' click '' @ (if in_direction i = Some ''down'' then ''5'' else ''4'')) (world s)
          = (Inr out, w1)
     \<longrightarrow> cu_handleComputerAction a opts i s
           = (Inr (''Scrolled '' @ js_str (in_direction i)),
              addLog (''Scrolled '' @ js_str (in_direction i) @ '' at ('' @ show_int x @ '', ''
                      @ show_int y @ '')'') (s\<lparr>world := w1\<rparr>)))
   \<and> (in_action i = Some ''scroll'' \<and> in_coordinate i = Some [x, y] \<and> page s = Some p
      \<and> page_call a p (MouseMove (Some x) (Some y)) (world s) = (Inr out, w1)
      \<and> page_call a p (MouseWheel ((if in_direction i = Some ''down'' then 120 else - 120)
                                     * (case in_clicks i of None \<Rightarrow> 3 | Some n \<Rightarrow> n))) w1
          = (Inr out', w2)
     \<longrightarrow> pcu_handleComputerAction a opts i s
           = (Inr (''Scrolled '' @ js_str (in_direction i)),
              addLog (''Scrolled '' @ js_str (in_direction i) @ '' at ('' @ show_int x @ '', ''
                      @ show_int y @ '')'') (s\<lparr>world := w2\<rparr>)))"
  by (simp add: cu_handleComputerAction_def pcu_handleComputerAction_def on_page_def
                js_elem_def js_num_def Let_def)

theorem click_coordinates_unchecked_witness:
  "cu_handleComputerAction (sim_api silent (exits_with 0) (Inr ())) opts0
      (tu_input (click_at 5000 (- 3))) container_run
     = (Inr ''Clicked at (5000, -3)'',
        addLog ''Clicked at coordinates (5000, -3)''
          (container_run\<lparr>world :=
             sim0\<lparr>commands := [''export DISPLAY=:99 && xdotool mousemove 5000 -3 click 1'']\<rparr>\<rparr>))
   \<and> pcu_handleComputerAction (sim_api silent (exits_with 0) (Inr ())) opts0
      (tu_input (click_at 5000 (- 3))) browser_run
     = (Inr ''Clicked at (5000, -3)'',
        addLog ''Clicked at coordinates (5000, -3)''
          (browser_run\<lparr>world := sim0\<lparr>page_ops := [MouseClick (Some 5000) (Some (- 3))]\<rparr>\<rparr>))
   \<and> cu_handleComputerAction (sim_api silent (exits_with 0) (Inr ())) opts0
      (tu_input (scroll_down_at 5000 (- 3))) container_run
     = (Inr ''Scrolled down'',
        addLog ''Scrolled down at (5000, -3)''
          (container_run\<lparr>world :=
             sim0\<lparr>commands := [''export DISPLAY=:99 && xdotool mousemove 5000 -3 click 5'']\<rparr>\<rparr>))
   \<and> pcu_handleComputerAction (sim_api silent (exits_with 0) (Inr ())) opts0
      (tu_input (scroll_down_at 5000 (- 3))) browser_run
     = (Inr ''Scrolled down'',
        addLog ''Scrolled down at (5000, -3)''
          (browser_run\<lparr>world :=
             sim0\<lparr>page_ops := [MouseMove (Some 5000) (Some (- 3)), MouseWheel 360]\<rparr>\<rparr>))"
proof -
  let ?a = "sim_api silent (exits_with 0) (Inr ())"
  have shown: "show_int 5000 = ''5000''" "show_int (- 3) = ''-3''"
    by (simp_all add: show_int_def digits.simps digit_char_def)
  have ran: "dm_execute ?a (container container_run)
               (''export DISPLAY=:99 && xdotool mousemove '' @ show_int 5000 @ '' '' @ show_int (- 3)
                @ '' click 1'') (world container_run)
             = (Inr [], sim0\<lparr>commands := [''export DISPLAY=:99 && xdotool mousemove 5000 -3 click 1'']\<rparr>)"
    by (simp add: shown dm_execute_def trim_def sim_defs)
  have called: "page_call ?a 2 (MouseClick (Some 5000) (Some (- 3))) (world browser_run)
                = (Inr ''iVBORw0KGgo='', sim0\<lparr>page_ops := [MouseClick (Some 5000) (Some (- 3))]\<rparr>)"
    by (simp add: sim_defs)
  have scrolled: "dm_execute ?a (container container_run)
               (''export DISPLAY=:99 && xdotool mousemove '' @ show_int 5000 @ '' '' @ show_int (- 3)
                @ '' click '' @ (if in_direction (tu_input (scroll_down_at 5000 (- 3))) = Some ''down''
                                 then ''5'' else ''4'')) (world container_run)
             = (Inr [], sim0\<lparr>commands := [''export DISPLAY=:99 && xdotool mousemove 5000 -3 click 5'']\<rparr>)"
    by (simp add: shown dm_execute_def trim_def sim_defs)
  have moved: "page_call ?a 2 (MouseMove (Some 5000) (Some (- 3))) (world browser_run)
                = (Inr ''iVBORw0KGgo='', sim0\<lparr>page_ops := [MouseMove (Some 5000) (Some (- 3))]\<rparr>)"
    and wheeled: "page_call ?a 2
                    (MouseWheel ((if in_direction (tu_input (scroll_down_at 5000 (- 3))) = Some ''down''
                                  then 120 else - 120)
                                 * (case in_clicks (tu_input (scroll_down_at 5000 (- 3))) of
                                      None \<Rightarrow> 3 | Some n \<Rightarrow> n)))
                    (sim0\<lparr>page_ops := [MouseMove (Some 5000) (Some (- 3))]\<rparr>)
                = (Inr ''iVBORw0KGgo='',
                   sim0\<lparr>page_ops := [MouseMove (Some 5000) (Some (- 3)), MouseWheel 360]\<rparr>)"
    by (simp_all add: sim_defs)
  have click: "in_action (tu_input (click_at 5000 (- 3))) = Some ''click''"
              "in_coordinate (tu_input (click_at 5000 (- 3))) = Some [5000, - 3]"
    and scroll: "in_action (tu_input (scroll_down_at 5000 (- 3))) = Some ''scroll''"
                "in_coordinate (tu_input (scroll_down_at 5000 (- 3))) = Some [5000, - 3]"
                "js_str (in_direction (tu_input (scroll_down_at 5000 (- 3)))) = ''down''"
    and pg: "page browser_run = Some 2"
    by (simp_all add: sim_defs js_str_def)
  show ?thesis
    using click_coordinates_unchecked
            [where i = "tu_input (click_at 5000 (- 3))" and x = 5000 and y = "- 3"
               and a = ?a and s = container_run and opts = opts0 and out = "[]"
               and ?w1.0 = "sim0\<lparr>commands := [''export DISPLAY=:99 && xdotool mousemove 5000 -3 click 1'']\<rparr>",
             THEN conjunct1, rule_format, OF conjI [OF click(1) conjI [OF click(2) ran]]]
          click_coordinates_unchecked
            [where i = "tu_input (click_at 5000 (- 3))" and x = 5000 and y = "- 3"
               and a = ?a and s = browser_run and opts = opts0 and out = "''iVBORw0KGgo=''" and p = 2
               and ?w1.0 = "sim0\<lparr>page_ops := [MouseClick (Some 5000) (Some (- 3))]\<rparr>",
             THEN conjunct2, THEN conjunct1, rule_format,
             OF conjI [OF click(1) conjI [OF click(2) conjI [OF pg called]]]]
          click_coordinates_unchecked
            [where i = "tu_input (scroll_down_at 5000 (- 3))" and x = 5000 and y = "- 3"
               and a = ?a and s = container_run and opts = opts0 and out = "[]"
               and ?w1.0 = "sim0\<lparr>commands := [''export DISPLAY=:99 && xdotool mousemove 5000 -3 click 5'']\<rparr>",
             THEN conjunct2, THEN conjunct2, THEN conjunct1, rule_format,
             OF conjI [OF scroll(1) conjI [OF scroll(2) scrolled]]]
          click_coordinates_unchecked
            [where i = "tu_input (scroll_down_at 5000 (- 3))" and x = 5000 and y = "- 3"
               and a = ?a and s = browser_run and opts = opts0 and out = "''iVBORw0KGgo=''"
               and out' = "''iVBORw0KGgo=''" and p = 2
               and ?w1.0 = "sim0\<lparr>page_ops := [MouseMove (Some 5000) (Some (- 3))]\<rparr>"
               and ?w2.0 = "sim0\<lparr>page_ops := [MouseMove (Some 5000) (Some (- 3)), MouseWheel 360]\<rparr>",
             THEN conjunct2, THEN conjunct2, THEN conjunct2, rule_format,
             OF conjI [OF scroll(1) conjI [OF scroll(2) conjI [OF pg conjI [OF moved wheeled]]]]]
    by (simp add: shown scroll(3))
qed

text \<open>
  C6 as it is stated fails: on the display of 1280 by 720 a click at (5000, 5000) is not
  rejected. Both backends pass it on to the pointer and report the click.
\<close>

theorem click_outside_display_counterexample:
  "display_width = 1280 \<and> display_height = 720
   \<and> fst (cu_handleComputerAction (sim_api silent (exits_with 0) (Inr ())) opts0
            (tu_input (click_at 5000 5000)) container_run)
       = Inr ''Clicked at (5000, 5000)''
   \<and> commands (world (snd (cu_handleComputerAction (sim_api silent (exits_with 0) (Inr ())) opts0
                              (tu_input (click_at 5000 5000)) container_run)))
       = [''export DISPLAY=:99 && xdotool mousemove 5000 5000 click 1'']
   \<and> fst (pcu_handleComputerAction (sim_api silent (exits_with 0) (Inr ())) opts0
            (tu_input (click_at 5000 5000)) browser_run)
       = Inr ''Clicked at (5000, 5000)''
   \<and> page_ops (world (snd (pcu_handleComputerAction (sim_api silent (exits_with 0) (Inr ())) opts0
                              (tu_input (click_at 5000 5000)) browser_run)))
       = [MouseClick (Some 5000) (Some 5000)]"
  by (simp add: display_width_def display_height_def run_defs sim_defs)

section \<open>The iteration cap\<close>

lemma max_iterations_message: "max_iterations_error = Error ''Maximum iterations (20) reached''"
  by (simp add: max_iterations_error_def maxIterations_def digits.simps digit_char_def)

lemma ready_takes_screenshot:
  assumes "screenshots_succeed mode a" "ready mode s"
  shows "\<exists>shot w'. takeScreenshotForClaude mode a s = (Inr shot, w')"
  using assms
  by (cases mode) (auto simp: screenshots_succeed_def ready_def takeScreenshotForClaude_def)

lemma iteration_body_tool_use:
  assumes "screenshots_succeed mode a" "always_tool_use a" "ready mode s"
  shows "\<exists>ms' s'. iteration_body mode a opts i ms s = (Inr Continue, ms', s')
                   \<and> length ms' = length ms + 2 \<and> same_backend s s'"
proof -
  obtain shot w1 where shot: "takeScreenshotForClaude mode a s = (Inr shot, w1)"
    using ready_takes_screenshot [OF assms(1) assms(3)] by blast
  obtain response w2 toolUse where
    resp: "messages_create a (agent_request mode i ms shot) w1 = (Inr response, w2)"
    and tu: "find_tool_use response = Some toolUse"
    using assms(2) unfolding always_tool_use_def by fastforce
  define s2 where "s2 = (case find_text response of
                            Some textContent \<Rightarrow> addLog (''Claude: '' @ textContent) (s\<lparr>world := w2\<rparr>)
                          | None \<Rightarrow> s\<lparr>world := w2\<rparr>)"
  obtain result s3 where run: "executeComputerUseTool mode a opts toolUse s2 = (Inr result, s3)"
    using executeComputerUseTool_returns [of mode a opts toolUse s2]
    by (metis prod.collapse)
  have "same_backend s s2"
    by (simp add: s2_def split: option.splits)
  moreover have "same_backend s s3 = same_backend s s2"
    using executeComputerUseTool_backend [of s mode a opts toolUse s2, unfolded run] by simp
  ultimately have "same_backend s s3" by simp
  moreover have "iteration_body mode a opts i ms s =
          (Inr Continue, ms @ [(Assistant, Blocks response), (User, ToolResult (tu_id toolUse) result)], s3)"
    using shot resp tu run by (simp add: iteration_body_def s2_def)
  ultimately show ?thesis by simp
qed

lemma while_loop_exhausts:
  assumes "screenshots_succeed mode a" "always_tool_use a"
  shows "ready mode s \<Longrightarrow> k \<le> maxIterations \<Longrightarrow>
         \<exists>ms' s'. while_loop mode a opts k ms s = (Inr (), maxIterations, ms', s')
                   \<and> length ms' = length ms + 2 * (maxIterations - k)"
proof (induction "maxIterations - k" arbitrary: k ms s)
  case 0
  then have "k = maxIterations" by simp
  then show ?case by (simp add: while_loop.simps)
next
  case (Suc n)
  then have less: "k < maxIterations" by simp
  let ?s = "addLog (''Claude iteration '' @ digits (k + 1)) s"
  have "ready mode ?s"
    using Suc.prems(1) ready_same_backend [of s ?s mode] by simp
  then obtain ms1 s1 where
    body: "iteration_body mode a opts (k + 1) ms ?s = (Inr Continue, ms1, s1)"
    and len: "length ms1 = length ms + 2" and same: "same_backend ?s s1"
    using iteration_body_tool_use [OF assms, of ?s opts "k + 1" ms] by blast
  have "ready mode s1"
    using same \<open>ready mode ?s\<close> ready_same_backend by blast
  moreover have "n = maxIterations - (k + 1)" "k + 1 \<le> maxIterations"
    using Suc.hyps(2) less by simp_all
  ultimately obtain ms' s' where
    rest: "while_loop mode a opts (k + 1) ms1 s1 = (Inr (), maxIterations, ms', s')"
    and len': "length ms' = length ms1 + 2 * (maxIterations - (k + 1))"
    using Suc.hyps(1) [of "k + 1" s1 ms1] by blast
  have "while_loop mode a opts k ms s = while_loop mode a opts (k + 1) ms1 s1"
    using less body by (subst while_loop.simps) simp
  then show ?case
    using rest len len' less by simp
qed



section \<open>Completion at the cap\<close>

text \<open>
  Where the body of an iteration ends by \<open>break\<close>: the statements after the loop return
  the iteration count when it is below the cap, and throw when it is the cap.
\<close>

lemma completion_at_iteration:
  assumes "k < maxIterations"
      and "iteration_body mode a opts (k + 1) ms (addLog (''Claude iteration '' @ digits (k + 1)) s)
             = (Inr Break, ms', s')"
  shows "after_loop (while_loop mode a opts k ms s)
           = (if k + 1 < maxIterations then Inr \<lparr>iterations = k + 1, completed = True\<rparr>
              else Inl max_iterations_error, k + 1, ms', s')"
  using assms by (subst while_loop.simps) (simp add: after_loop_def)

lemma browser_run_completes_at_20:
  "fst (runClaudeWithComputerUse Puppeteer (sim_api (finishing_at 20) (exits_with 0) (Inr ()))
          opts0 ''Check the login page'' browser_run)
     = Inl (Error ''Maximum iterations (20) reached'')
   \<and> last (log (snd (snd (snd (runClaudeWithComputerUse Puppeteer
              (sim_api (finishing_at 20) (exits_with 0) (Inr ()))
              opts0 ''Check the login page'' browser_run)))))
       = ''Claude indicates task completion''"
  by (simp add: run_defs sim_defs)

lemma container_run_completes_at_20:
  "fst (runClaudeWithComputerUse Docker (sim_api (finishing_at 20) (exits_with 0) (Inr ()))
          opts0 ''Check the login page'' container_run)
     = Inl (Error ''Maximum iterations (20) reached'')"
  by (simp add: run_defs sim_defs)

lemma browser_run_completes_at_19:
  "fst (runClaudeWithComputerUse Puppeteer (sim_api (finishing_at 19) (exits_with 0) (Inr ()))
          opts0 ''Check the login page'' browser_run)
     = Inr \<lparr>iterations = 19, completed = True\<rparr>"
  by (simp add: run_defs sim_defs)

text \<open>
  C1 at the cap. An agent asks for a key press in its first 19 responses and answers
  with text alone in the 20th: the loop logs \<open>Claude indicates task completion\<close>, leaves
  by \<open>break\<close> with \<open>iteration\<close> at 20, and the check after the loop throws
  \<open>Maximum iterations (20) reached\<close>, on both backends. The same agent finishing one
  response earlier gets \<open>{iterations: 19, completed: true}\<close>.
\<close>

theorem completion_at_cap_raises:
  "fst (runClaudeWithComputerUse Puppeteer (sim_api (finishing_at 20) (exits_with 0) (Inr ()))
          opts0 ''Check the login page'' browser_run)
     = Inl (Error ''Maximum iterations (20) reached'')
   \<and> last (log (snd (snd (snd (runClaudeWithComputerUse Puppeteer
              (sim_api (finishing_at 20) (exits_with 0) (Inr ()))
              opts0 ''Check the login page'' browser_run)))))
       = ''Claude indicates task completion''
   \<and> fst (runClaudeWithComputerUse Docker (sim_api (finishing_at 20) (exits_with 0) (Inr ()))
          opts0 ''Check the login page'' container_run)
     = Inl (Error ''Maximum iterations (20) reached'')
   \<and> fst (runClaudeWithComputerUse Puppeteer (sim_api (finishing_at 19) (exits_with 0) (Inr ()))
          opts0 ''Check the login page'' browser_run)
     = Inr \<lparr>iterations = 19, completed = True\<rparr>"
  using browser_run_completes_at_20 container_run_completes_at_20 browser_run_completes_at_19
  by (intro conjI) (rule conjunct1, assumption, rule conjunct2, assumption, assumption, assumption)

section \<open>The conversation\<close>

lemma paired_snoc:
  "paired xs \<Longrightarrow> find_tool_use response = Some toolUse \<Longrightarrow>
   paired (xs @ [(Assistant, Blocks response), (User, ToolResult (tu_id toolUse) r)])"
  by (induction xs rule: paired.induct) (auto split: option.splits)

lemma iteration_body_messages:
  "iteration_body mode a opts i ms s = (r, ms', s') \<Longrightarrow>
     (r = Inr Continue \<and>
        (\<exists>response toolUse result.
           find_tool_use response = Some toolUse \<and>
           ms' = ms @ [(Assistant, Blocks response), (User, ToolResult (tu_id toolUse) result)]))
     \<or> (r \<noteq> Inr Continue \<and> ms' = ms)"
  by (auto simp: iteration_body_def Let_def split: prod.splits sum.splits option.splits)

lemma while_loop_conversation:
  "while_loop mode a opts k ms s = (r, it, ms', s') \<Longrightarrow> ms \<noteq> [] \<Longrightarrow> paired (tl ms) \<Longrightarrow>
   ms' \<noteq> [] \<and> hd ms' = hd ms \<and> paired (tl ms')
   \<and> (r = Inr () \<and> it < maxIterations \<longrightarrow> k < it \<and> length ms' = length ms + 2 * (it - 1 - k))"
proof (induction "maxIterations - k" arbitrary: k ms s)
  case 0
  then show ?case by (simp add: while_loop.simps)
next
  case (Suc n)
  then have less: "k < maxIterations" by simp
  obtain b ms1 s1 where
    body: "iteration_body mode a opts (k + 1) ms (addLog (''Claude iteration '' @ digits (k + 1)) s)
             = (b, ms1, s1)"
    by (metis prod.collapse)
  show ?case
  proof (cases "b = Inr Continue")
    case True
    then obtain response toolUse result where
      tu: "find_tool_use response = Some toolUse"
      and ms1: "ms1 = ms @ [(Assistant, Blocks response), (User, ToolResult (tu_id toolUse) result)]"
      using iteration_body_messages [OF body] by blast
    have loop: "while_loop mode a opts (k + 1) ms1 s1 = (r, it, ms', s')"
      using Suc.prems(1) less body True by (subst (asm) while_loop.simps) simp
    have "tl ms1 = tl ms @ [(Assistant, Blocks response), (User, ToolResult (tu_id toolUse) result)]"
      using ms1 Suc.prems(2) by simp
    then have "paired (tl ms1)"
      using paired_snoc [OF Suc.prems(3) tu] by simp
    moreover have "ms1 \<noteq> []" "hd ms1 = hd ms" "length ms1 = length ms + 2"
      using ms1 Suc.prems(2) by simp_all
    moreover have "n = maxIterations - (k + 1)"
      using Suc.hyps(2) by simp
    ultimately show ?thesis
      using Suc.hyps(1) [of "k + 1" ms1 s1, OF _ loop] by auto
  next
    case False
    then have same: "ms1 = ms"
      using iteration_body_messages [OF body] by blast
    have "ms' = ms \<and> it = k + 1"
      using Suc.prems(1) less body False same
      by (subst (asm) while_loop.simps) (auto split: sum.splits flow.splits)
    then show ?thesis
      using Suc.prems by simp
  qed
qed

text \<open>
  C8, as the code has it. When \<open>runClaudeWithComputerUse\<close> returns
  \<open>{iterations: i, completed: true}\<close>, its \<open>messages\<close> array holds \<open>2 i - 1\<close> turns: the
  instruction, then one pair for each of the \<open>i - 1\<close> iterations that invoked a tool, an
  agent turn with the invocation followed at once by the user turn whose tool result
  carries the invocation's identifier. The response that ends the run is not appended;
  a run that completes on iteration 2 leaves 3 turns.
\<close>

theorem conversation_turns:
  assumes "runClaudeWithComputerUse mode a opts instruction s = (Inr result, it, ms, s')"
  shows "length ms = 2 * iterations result - 1
       \<and> 0 < iterations result
       \<and> hd ms = (User, Plain (first_message mode (the_websiteUrl opts) instruction))
       \<and> paired (tl ms)"
proof -
  let ?first = "(User, Plain (first_message mode (the_websiteUrl opts) instruction))"
  obtain r where loop: "while_loop mode a opts 0 [?first] s = (r, it, ms, s')"
    and r: "r = Inr ()" and it: "it < maxIterations" and res: "iterations result = it"
    using assms
    by (auto simp: runClaudeWithComputerUse_def after_loop_def split: prod.splits sum.splits if_splits)
  show ?thesis
    using while_loop_conversation [OF loop] r it res by auto
qed

lemma click_then_done_run:
  "fst (runClaudeWithComputerUse Docker (sim_api click_then_done (exits_with 0) (Inr ()))
          opts0 ''Click the middle of the page'' container_run)
     = Inr \<lparr>iterations = 2, completed = True\<rparr>"
  by (simp add: run_defs sim_defs)

theorem conversation_turns_witness:
  "length (fst (snd (snd (runClaudeWithComputerUse Docker
             (sim_api click_then_done (exits_with 0) (Inr ()))
             opts0 ''Click the middle of the page'' container_run)))) = 3
   \<and> paired (tl (fst (snd (snd (runClaudeWithComputerUse Docker
             (sim_api click_then_done (exits_with 0) (Inr ()))
             opts0 ''Click the middle of the page'' container_run)))))"
proof -
  let ?run = "runClaudeWithComputerUse Docker (sim_api click_then_done (exits_with 0) (Inr ()))
                opts0 ''Click the middle of the page'' container_run"
  have "?run = (Inr \<lparr>iterations = 2, completed = True\<rparr>,
                fst (snd ?run), fst (snd (snd ?run)), snd (snd (snd ?run)))"
    using click_then_done_run by (simp add: prod_eq_iff)
  from conversation_turns [OF this] show ?thesis by simp
qed

text \<open>
  C8 as it is stated fails: the agent asks for a click at (640, 360) on iteration 1 and
  answers with text alone on iteration 2; the conversation then has 3 turns, not 4, on
  both backends. The two turns after the instruction are the agent's turn with the
  invocation and the tool result with its identifier.
\<close>

theorem four_turns_counterexample:
  "length (fst (snd (snd (runClaudeWithComputerUse Docker
             (sim_api click_then_done (exits_with 0) (Inr ()))
             opts0 ''Click the middle of the page'' container_run)))) = 3
   \<and> fst (runClaudeWithComputerUse Puppeteer (sim_api click_then_done (exits_with 0) (Inr ()))
          opts0 ''Click the middle of the page'' browser_run)
     = Inr \<lparr>iterations = 2, completed = True\<rparr>
   \<and> tl (fst (snd (snd (runClaudeWithComputerUse Puppeteer
             (sim_api click_then_done (exits_with 0) (Inr ()))
             opts0 ''Click the middle of the page'' browser_run))))
      = [(Assistant, Blocks [TextBlock ''I will click the middle of the page.'',
                             ToolUseBlock (click_at 640 360)]),
         (User, ToolResult ''toolu_02'' ''Clicked at (640, 360)'')]"
  by (simp add: run_defs sim_defs)

section \<open>The screenshot trail\<close>

lemma container_screenshots:
  assumes "commands_succeed a" "archives_end a"
  shows "screenshots_succeed Docker a"
proof -
  have "\<exists>shot w'. cu_takeScreenshotForClaude a (Some h) w = (Inr shot, w')" for h w
  proof -
    let ?file = "''/tmp/screenshot_'' @ digits (now a w) @ ''.png''"
    obtain out1 w1 where e1: "dm_execute a (Some h) (''export DISPLAY=:99 && scrot '' @ ?file) w = (Inr out1, w1)"
      using assms(1) unfolding commands_succeed_def by blast
    obtain w2 where ar: "container_getArchive a h ?file w1 = (ArchiveEnd, w2)"
      using assms(2) unfolding archives_end_def by blast
    obtain shot w3 where e2: "dm_execute a (Some h) (''base64 '' @ ?file) w2 = (Inr shot, w3)"
      using assms(1) unfolding commands_succeed_def by blast
    obtain out3 w4 where e3: "dm_execute a (Some h) (''rm -f '' @ ?file) w3 = (Inr out3, w4)"
      using assms(1) unfolding commands_succeed_def by blast
    have "dm_getFile a (Some h) ?file w1 = (Inr shot, w3)"
      using ar e2 by (simp add: dm_getFile_def)
    then show ?thesis
      using e1 e3 by (simp add: cu_takeScreenshotForClaude_def Let_def)
  qed
  then show ?thesis
    by (simp add: screenshots_succeed_def)
qed

lemma browser_screenshots:
  assumes "browser_cooperates a"
  shows "screenshots_succeed Puppeteer a"
proof -
  have "\<exists>shot w'. pcu_takeScreenshotForClaude a (Some h) w = (Inr shot, w')" for h w
  proof -
    obtain r w' where "page_call a h TakeScreenshot w = (Inr r, w')"
      using assms unfolding browser_cooperates_def by blast
    then show ?thesis by (simp add: pcu_takeScreenshotForClaude_def)
  qed
  then show ?thesis
    by (simp add: screenshots_succeed_def)
qed

lemma cu_capture_steps:
  assumes "screenshots_succeed Docker a" "container s \<noteq> None"
  shows "map step (screenshots (snd (cu_captureScreenshot a opts label s)))
           = map step (screenshots s) @ (if takeScreenshots opts then [label] else [])"
proof -
  obtain c where c: "container s = Some c" using assms(2) by blast
  obtain shot w' where "cu_takeScreenshotForClaude a (Some c) (world s) = (Inr shot, w')"
    using assms(1) unfolding screenshots_succeed_def by fastforce
  then show ?thesis
    using c by (simp add: cu_captureScreenshot_def addLog_def Let_def)
qed

lemma pcu_capture_steps:
  assumes "screenshots_succeed Puppeteer a" "page s \<noteq> None" "browser s \<noteq> None"
  shows "map step (screenshots (snd (pcu_captureScreenshot a opts label s)))
           = map step (screenshots s) @ (if takeScreenshots opts then [label] else [])"
proof -
  obtain p where p: "page s = Some p" using assms(2) by blast
  obtain shot w' where "pcu_takeScreenshotForClaude a (Some p) (world s) = (Inr shot, w')"
    using assms(1) unfolding screenshots_succeed_def by fastforce
  then show ?thesis
    using p assms(3) by (auto simp: pcu_captureScreenshot_def addLog_def Let_def)
qed

lemma cu_navigate_steps:
  assumes "commands_succeed a" "screenshots_succeed Docker a" "container s \<noteq> None"
  shows "fst (cu_navigateToWebsite a opts s) = Inr ()
       \<and> map step (screenshots (snd (cu_navigateToWebsite a opts s)))
           = map step (screenshots s)
             @ (if takeScreenshots opts then [''Navigated to '' @ the_websiteUrl opts] else [])"
proof -
  let ?s0 = "addLog (''Navigating to '' @ the_websiteUrl opts) s"
  obtain c where c: "container s = Some c" using assms(3) by blast
  obtain out w1 where
    ex: "dm_execute a (Some c) (cu_navigate_command (the_websiteUrl opts)) (world ?s0) = (Inr out, w1)"
    using assms(1) unfolding commands_succeed_def by blast
  have "container (?s0\<lparr>world := w1\<rparr>) \<noteq> None" using c by simp
  from cu_capture_steps [OF assms(2) this, of opts "''Navigated to '' @ the_websiteUrl opts"]
  show ?thesis
    using c ex by (simp add: cu_navigateToWebsite_def Let_def)
qed

lemma pcu_navigate_steps:
  assumes "browser_cooperates a" "page s \<noteq> None" "browser s \<noteq> None"
  shows "fst (pcu_navigateToWebsite a opts s) = Inr ()
       \<and> map step (screenshots (snd (pcu_navigateToWebsite a opts s)))
           = map step (screenshots s)
             @ (if takeScreenshots opts then [''Navigated to '' @ the_websiteUrl opts] else [])"
proof -
  let ?s0 = "addLog (''Navigating to '' @ the_websiteUrl opts) s"
  obtain p where p: "page s = Some p" using assms(2) by blast
  obtain out w1 where
    ex: "page_call a p (Goto (''https://'' @ the_websiteUrl opts)) (world ?s0) = (Inr out, w1)"
    using assms(1) unfolding browser_cooperates_def by blast
  have "page (?s0\<lparr>world := w1\<rparr>) \<noteq> None" "browser (?s0\<lparr>world := w1\<rparr>) \<noteq> None"
    using p assms(3) by simp_all
  from pcu_capture_steps [OF browser_screenshots [OF assms(1)] this,
                          of opts "''Navigated to '' @ the_websiteUrl opts"]
  show ?thesis
    using p ex by (simp add: pcu_navigateToWebsite_def Let_def)
qed

lemma pcu_initializeBrowser_ok:
  assumes "browser_cooperates a"
  shows "fst (pcu_initializeBrowser a s) = Inr ()
       \<and> page (snd (pcu_initializeBrowser a s)) \<noteq> None
       \<and> browser (snd (pcu_initializeBrowser a s)) \<noteq> None
       \<and> screenshots (snd (pcu_initializeBrowser a s)) = screenshots s"
proof -
  let ?s0 = "addLog ''Initializing Puppeteer browser'' s"
  obtain b w1 where l: "puppeteer_launch a (world ?s0) = (Inr b, w1)"
    using assms unfolding browser_cooperates_def by blast
  obtain p w2 where n: "browser_newPage a b w1 = (Inr p, w2)"
    using assms unfolding browser_cooperates_def by blast
  obtain r w3 where v: "page_call a p (SetViewport display_width display_height) w2 = (Inr r, w3)"
    using assms unfolding browser_cooperates_def by blast
  show ?thesis
    using l n v by (simp add: pcu_initializeBrowser_def Let_def)
qed

lemma pcu_cleanup_returns: "fst (pcu_cleanup a s) = Inr ()"
  by (simp add: pcu_cleanup_def Let_def case_prod_beta split: option.splits sum.splits)

lemma one_iteration:
  assumes "screenshots_succeed mode a" "completes_at_once a" "ready mode s"
  shows "\<exists>ms s'. runClaudeWithComputerUse mode a opts instruction s
                    = (Inr \<lparr>iterations = 1, completed = True\<rparr>, 1, ms, s')
                 \<and> screenshots s' = screenshots s"
proof -
  let ?s = "addLog (''Claude iteration '' @ digits (0 + 1)) s"
  let ?ms = "[(User, Plain (first_message mode (the_websiteUrl opts) instruction))]"
  have "ready mode ?s"
    using assms(3) ready_same_backend [of s ?s mode] by simp
  then obtain shot w1 where shot: "takeScreenshotForClaude mode a ?s = (Inr shot, w1)"
    using ready_takes_screenshot [OF assms(1)] by blast
  obtain response w2 where
    resp: "messages_create a (agent_request mode (0 + 1) ?ms shot) w1 = (Inr response, w2)"
    and tu: "find_tool_use response = None"
    using assms(2) unfolding completes_at_once_def by fastforce
  have "\<exists>s'. iteration_body mode a opts (0 + 1) ?ms ?s = (Inr Break, ?ms, s')
             \<and> screenshots s' = screenshots s"
    using shot resp tu by (simp add: iteration_body_def split: option.splits)
  then obtain s' where
    body: "iteration_body mode a opts (0 + 1) ?ms ?s = (Inr Break, ?ms, s')"
    and same: "screenshots s' = screenshots s" by blast
  have "while_loop mode a opts 0 ?ms s = (Inr (), 1, ?ms, s')"
    using body by (subst while_loop.simps) (simp add: maxIterations_def)
  then show ?thesis
    using same by (simp add: runClaudeWithComputerUse_def after_loop_def maxIterations_def)
qed

lemma cu_execute_trail:
  assumes "completes_at_once a" "screenshots s = []"
      and "commands_succeed a" "archives_end a" "container s \<noteq> None"
  shows "\<exists>res. fst (cu_execute a opts instruction s) = Inr res
             \<and> iterations (r_result res) = 1
             \<and> map step (r_screenshots res)
                 = (if takeScreenshots opts
                    then [''Initial state'', ''Navigated to '' @ the_websiteUrl opts] else [])"
proof -
  note shots = container_screenshots [OF assms(3) assms(4)]
  define s0 where "s0 = addLog (''Starting execution: '' @ instruction) s"
  define s1 where "s1 = (if takeScreenshots opts
                          then snd (cu_captureScreenshot a opts ''Initial state'' s0) else s0)"
  have c0: "container s0 \<noteq> None" using assms(5) by (simp add: s0_def)
  have "same_backend s0 s1" by (simp add: s1_def)
  then have c1: "container s1 \<noteq> None" using c0 by (simp add: same_backend_def)
  have t1: "map step (screenshots s1) = (if takeScreenshots opts then [''Initial state''] else [])"
    using cu_capture_steps [OF shots c0, of opts "''Initial state''"] assms(2)
    by (simp add: s1_def s0_def)
  obtain s2 where nav: "cu_navigateToWebsite a opts s1 = (Inr (), s2)"
    using cu_navigate_steps [OF assms(3) shots c1, of opts] by (metis prod.collapse)
  have t2: "map step (screenshots s2)
              = (if takeScreenshots opts
                 then [''Initial state'', ''Navigated to '' @ the_websiteUrl opts] else [])"
    using cu_navigate_steps [OF assms(3) shots c1, of opts] nav t1 by simp
  have "same_backend s1 s2"
    using cu_navigateToWebsite_backend [of s1 a opts s1, unfolded nav] by simp
  then have "ready Docker s2" using c1 by (simp add: ready_def same_backend_def)
  then obtain ms s3 where
    run: "runClaudeWithComputerUse Docker a opts instruction s2
            = (Inr \<lparr>iterations = 1, completed = True\<rparr>, 1, ms, s3)"
    and t3: "screenshots s3 = screenshots s2"
    using one_iteration [OF shots assms(1), of s2 opts instruction] by blast
  have "cu_execute a opts instruction s
          = execute_catch
              (case cu_navigateToWebsite a opts s1 of
                 (Inl e, s2) \<Rightarrow> (Inl e, s2)
               | (Inr u, s2) \<Rightarrow> execute_finish (runClaudeWithComputerUse Docker a opts instruction s2))"
    unfolding cu_execute_def Let_def s1_def s0_def by (rule refl)
  then have "fst (cu_execute a opts instruction s)
          = Inr \<lparr>r_screenshots = screenshots s3,
                 r_log = log (addLog ''Execution completed successfully'' s3),
                 r_result = \<lparr>iterations = 1, completed = True\<rparr>\<rparr>"
    using nav run by (simp add: execute_finish_def execute_catch_def Let_def)
  then show ?thesis
    using t2 t3 by simp
qed

lemma pcu_execute_trail:
  assumes "completes_at_once a" "screenshots s = []" and "browser_cooperates a"
  shows "\<exists>res. fst (pcu_execute a opts instruction s) = Inr res
             \<and> iterations (r_result res) = 1
             \<and> map step (r_screenshots res)
                 = (if takeScreenshots opts
                    then [''Navigated to '' @ the_websiteUrl opts, ''Initial state''] else [])"
proof -
  note shots = browser_screenshots [OF assms(3)]
  define s0 where "s0 = addLog (''Starting execution with Puppeteer: '' @ instruction) s"
  obtain s1 where init: "pcu_initializeBrowser a s0 = (Inr (), s1)"
    using pcu_initializeBrowser_ok [OF assms(3), of s0] by (metis prod.collapse)
  have h1: "page s1 \<noteq> None" "browser s1 \<noteq> None" and t1: "screenshots s1 = []"
    using pcu_initializeBrowser_ok [OF assms(3), of s0] init assms(2) by (simp_all add: s0_def)
  obtain s2 where nav: "pcu_navigateToWebsite a opts s1 = (Inr (), s2)"
    using pcu_navigate_steps [OF assms(3) h1, of opts] by (metis prod.collapse)
  have t2: "map step (screenshots s2)
              = (if takeScreenshots opts then [''Navigated to '' @ the_websiteUrl opts] else [])"
    using pcu_navigate_steps [OF assms(3) h1, of opts] nav t1 by simp
  have "same_backend s1 s2"
    using pcu_navigateToWebsite_backend [of s1 a opts s1, unfolded nav] by simp
  then have h2: "page s2 \<noteq> None" "browser s2 \<noteq> None" using h1 by (simp_all add: same_backend_def)
  define s3 where "s3 = (if takeScreenshots opts
                          then snd (pcu_captureScreenshot a opts ''Initial state'' s2) else s2)"
  have t3: "map step (screenshots s3)
              = (if takeScreenshots opts
                 then [''Navigated to '' @ the_websiteUrl opts, ''Initial state''] else [])"
    using pcu_capture_steps [OF shots h2, of opts "''Initial state''"] t2 by (simp add: s3_def)
  have "same_backend s2 s3" by (simp add: s3_def)
  then have "ready Puppeteer s3" using h2 by (simp add: ready_def same_backend_def)
  then obtain ms s4 where
    run: "runClaudeWithComputerUse Puppeteer a opts instruction s3
            = (Inr \<lparr>iterations = 1, completed = True\<rparr>, 1, ms, s4)"
    and t4: "screenshots s4 = screenshots s3"
    using one_iteration [OF shots assms(1), of s3 opts instruction] by blast
  have "pcu_execute a opts instruction s
          = (case execute_catch
                    (case pcu_initializeBrowser a s0 of
                       (Inl e, s1) \<Rightarrow> (Inl e, s1)
                     | (Inr u, s1) \<Rightarrow>
                         (case pcu_navigateToWebsite a opts s1 of
                            (Inl e, s2) \<Rightarrow> (Inl e, s2)
                          | (Inr u', s2) \<Rightarrow>
                              execute_finish
                                (runClaudeWithComputerUse Puppeteer a opts instruction
                                   (if takeScreenshots opts
                                    then snd (pcu_captureScreenshot a opts ''Initial state'' s2)
                                    else s2)))) of
               (r, s4) \<Rightarrow>
                 (case pcu_cleanup a s4 of
                    (Inl e, s5) \<Rightarrow> (Inl e, s5)
                  | (Inr u, s5) \<Rightarrow> (r, s5)))"
    unfolding pcu_execute_def Let_def s0_def by (rule refl)
  also have "\<dots> = (case pcu_cleanup a (addLog ''Execution completed successfully'' s4) of
                     (Inl e, s5) \<Rightarrow> (Inl e, s5)
                   | (Inr u, s5) \<Rightarrow>
                       (Inr \<lparr>r_screenshots = screenshots s4,
                             r_log = log (addLog ''Execution completed successfully'' s4),
                             r_result = \<lparr>iterations = Suc 0, completed = True\<rparr>\<rparr>, s5))"
    using run unfolding init nav prod.case sum.case s3_def [symmetric]
    by (simp add: execute_finish_def execute_catch_def Let_def)
  finally have "fst (pcu_execute a opts instruction s)
          = Inr \<lparr>r_screenshots = screenshots s4,
                 r_log = log (addLog ''Execution completed successfully'' s4),
                 r_result = \<lparr>iterations = 1, completed = True\<rparr>\<rparr>"
    using pcu_cleanup_returns [of a "addLog ''Execution completed successfully'' s4"]
    by (simp add: case_prod_beta)
  then show ?thesis
    using t3 t4 by simp
qed

text \<open>
  C7, as the code has it. The agent answers its first request without a tool invocation,
  the run starts with an empty trail, and the outside world cooperates (commands and
  archives of the container; launch, page and page calls of the browser). Then
  \<open>execute\<close> succeeds with \<open>iterations = 1\<close>. With screenshot capture enabled the trail has
  exactly two entries: on the container backend \<open>Initial state\<close> and then
  \<open>Navigated to <site>\<close>; on the browser backend \<open>Navigated to <site>\<close> and then
  \<open>Initial state\<close>, because there \<open>execute\<close> navigates before it takes the screenshot it
  labels initial. With capture disabled the trail is empty.
\<close>

theorem screenshot_trail:
  assumes "completes_at_once a" and "screenshots s = []"
  shows "(commands_succeed a \<and> archives_end a \<and> container s \<noteq> None \<longrightarrow>
            (\<exists>res. fst (cu_execute a opts instruction s) = Inr res
                  \<and> iterations (r_result res) = 1
                  \<and> map step (r_screenshots res)
                      = (if takeScreenshots opts
                         then [''Initial state'', ''Navigated to '' @ the_websiteUrl opts] else [])))
       \<and> (browser_cooperates a \<longrightarrow>
            (\<exists>res. fst (pcu_execute a opts instruction s) = Inr res
                  \<and> iterations (r_result res) = 1
                  \<and> map step (r_screenshots res)
                      = (if takeScreenshots opts
                         then [''Navigated to '' @ the_websiteUrl opts, ''Initial state''] else [])))"
  using cu_execute_trail [OF assms] pcu_execute_trail [OF assms] by blast

theorem screenshot_trail_witness:
  "(\<exists>res. fst (cu_execute (sim_api (finishing_at 1) (exits_with 0) (Inr ())) opts0
                  ''take a screenshot of the homepage'' container_run) = Inr res
          \<and> iterations (r_result res) = 1
          \<and> map step (r_screenshots res) = [''Initial state'', ''Navigated to app.giftround.com''])
   \<and> (\<exists>res. fst (pcu_execute (sim_api (finishing_at 1) (exits_with 0) (Inr ())) opts0
                  ''take a screenshot of the homepage'' (new_run sim0)) = Inr res
          \<and> iterations (r_result res) = 1
          \<and> map step (r_screenshots res) = [''Navigated to app.giftround.com'', ''Initial state''])
   \<and> (\<exists>res. fst (pcu_execute (sim_api (finishing_at 1) (exits_with 0) (Inr ()))
                  (opts0\<lparr>takeScreenshots := False\<rparr>)
                  ''take a screenshot of the homepage'' (new_run sim0)) = Inr res
          \<and> iterations (r_result res) = 1
          \<and> map step (r_screenshots res) = [])"
proof -
  let ?a = "sim_api (finishing_at 1) (exits_with 0) (Inr ())"
  have agent: "completes_at_once ?a"
    by (simp add: completes_at_once_def sim_api_def finishing_at_def)
  have world: "commands_succeed ?a" "archives_end ?a" "browser_cooperates ?a"
    by (simp_all add: commands_succeed_def archives_end_def browser_cooperates_def
                      dm_execute_def trim_def sim_api_def exits_with_def)
  have fresh: "screenshots container_run = []" "screenshots (new_run sim0) = []"
              "container container_run \<noteq> None"
    by (simp_all add: container_run_def new_run_def)
  show ?thesis
    using screenshot_trail [OF agent fresh(1), of opts0 "''take a screenshot of the homepage''"]
          screenshot_trail [OF agent fresh(2), of opts0 "''take a screenshot of the homepage''"]
          screenshot_trail [OF agent fresh(2), of "opts0\<lparr>takeScreenshots := False\<rparr>"
                              "''take a screenshot of the homepage''"]
          world fresh(3)
    by (simp add: opts0_def the_websiteUrl_def)
qed

text \<open>
  C7 as it is stated fails on the browser backend: with capture enabled and the agent
  finishing on iteration 1 the run succeeds, and the two entries of its trail are
  \<open>Navigated to app.giftround.com\<close> first and \<open>Initial state\<close> second.
\<close>

theorem browser_trail_order_counterexample:
  "map step (r_screenshots (projr (fst (pcu_execute (sim_api (finishing_at 1) (exits_with 0) (Inr ()))
                                         opts0 ''take a screenshot of the homepage'' (new_run sim0)))))
     = [''Navigated to app.giftround.com'', ''Initial state'']
   \<and> iterations (r_result (projr (fst (pcu_execute (sim_api (finishing_at 1) (exits_with 0) (Inr ()))
                                         opts0 ''take a screenshot of the homepage'' (new_run sim0)))))
     = 1
   \<and> [''Navigated to app.giftround.com'', ''Initial state'']
     \<noteq> [''Initial state'', ''Navigated to app.giftround.com'']"
  by (simp add: pcu_execute_def pcu_initializeBrowser_def pcu_navigateToWebsite_def
                pcu_captureScreenshot_def pcu_cleanup_def execute_finish_def execute_catch_def
                the_websiteUrl_def display_width_def display_height_def run_defs sim_defs)

section \<open>Teardown\<close>

lemma while_loop_backend:
  "same_backend s0 (snd (snd (snd (while_loop mode a opts k ms s)))) = same_backend s0 s"
proof (induction "maxIterations - k" arbitrary: k ms s)
  case 0
  then show ?case by (simp add: while_loop.simps)
next
  case (Suc n)
  then have less: "k < maxIterations" by simp
  obtain b ms1 s1 where
    body: "iteration_body mode a opts (k + 1) ms (addLog (''Claude iteration '' @ digits (k + 1)) s)
             = (b, ms1, s1)"
    by (metis prod.collapse)
  have s1: "same_backend s0 s1 = same_backend s0 s"
    using iteration_body_backend
            [of s0 mode a opts "k + 1" ms "addLog (''Claude iteration '' @ digits (k + 1)) s",
             unfolded body]
    by simp
  have "n = maxIterations - (k + 1)" using Suc.hyps(2) by simp
  from Suc.hyps(1) [OF this, of ms1 s1] s1 less body show ?case
    by (subst while_loop.simps) (simp split: sum.splits flow.splits)
qed

lemma runClaudeWithComputerUse_backend [simp]:
  "same_backend s0 (snd (snd (snd (runClaudeWithComputerUse mode a opts instruction s))))
     = same_backend s0 s"
  using while_loop_backend
          [of s0 mode a opts 0 "[(User, Plain (first_message mode (the_websiteUrl opts) instruction))]" s]
  by (simp add: runClaudeWithComputerUse_def after_loop_def case_prod_beta split: sum.splits)

lemma execute_finish_backend [simp]:
  "same_backend s0 (snd (execute_finish r)) = same_backend s0 (snd (snd (snd r)))"
  by (simp add: execute_finish_def Let_def case_prod_beta split: sum.splits)

lemma execute_catch_backend [simp]:
  "same_backend s0 (snd (execute_catch r)) = same_backend s0 (snd r)"
  by (simp add: execute_catch_def case_prod_beta split: sum.splits)

lemma cu_execute_backend [simp]:
  "same_backend s0 (snd (cu_execute a opts instruction s)) = same_backend s0 s"
  by (simp add: cu_execute_def Let_def case_prod_beta split: sum.splits)

lemma pcu_initializeBrowser_teardowns [simp]:
  "teardowns (snd (pcu_initializeBrowser a s)) = teardowns s"
  by (simp add: pcu_initializeBrowser_def Let_def case_prod_beta split: sum.splits)

lemma pcu_cleanup_teardowns [simp]:
  "teardowns (snd (pcu_cleanup a s)) = teardowns s + 1"
  by (simp add: pcu_cleanup_def Let_def case_prod_beta split: option.splits sum.splits)

lemma pcu_execute_teardowns:
  "teardowns (snd (pcu_execute a opts instruction s)) = teardowns s + 1"
proof -
  define body where "body =
     execute_catch
       (case pcu_initializeBrowser a (addLog (''Starting execution with Puppeteer: '' @ instruction) s) of
          (Inl e, s1) \<Rightarrow> (Inl e, s1)
        | (Inr u, s1) \<Rightarrow>
            (case pcu_navigateToWebsite a opts s1 of
               (Inl e, s2) \<Rightarrow> (Inl e, s2)
             | (Inr u', s2) \<Rightarrow>
                 execute_finish
                   (runClaudeWithComputerUse Puppeteer a opts instruction
                      (if takeScreenshots opts
                       then snd (pcu_captureScreenshot a opts ''Initial state'' s2)
                       else s2))))"
  let ?s1 = "snd (pcu_initializeBrowser a (addLog (''Starting execution with Puppeteer: '' @ instruction) s))"
  have "same_backend ?s1 (snd body)"
    by (simp add: body_def case_prod_beta split: sum.splits)
  then have "teardowns (snd body) = teardowns s"
    using same_backend_teardowns by fastforce
  moreover have "pcu_execute a opts instruction s
          = (case body of
               (r, s4) \<Rightarrow>
                 (case pcu_cleanup a s4 of
                    (Inl e, s5) \<Rightarrow> (Inl e, s5)
                  | (Inr u, s5) \<Rightarrow> (r, s5)))"
    unfolding pcu_execute_def Let_def body_def by (rule refl)
  ultimately show ?thesis
    using pcu_cleanup_teardowns [of a "snd body"] pcu_cleanup_returns [of a "snd body"]
    by (simp add: case_prod_beta split: sum.splits)
qed

lemma test_failed_backend [simp]:
  "same_backend s0 (snd (test_failed mode a opts e s)) = same_backend s0 s"
  by (simp add: test_failed_def case_prod_beta split: executionMode.splits)

lemma runTest_teardowns:
  "teardowns (snd (runTest a testId instruction opts mode w)) = 1"
proof (cases mode)
  case Docker
  define r where "r =
     (case dm_initialize a (''computer-use-test-'' @ testId) None w of
        (Inl e, c, w1) \<Rightarrow>
          (Inl \<lparr>f_message = message e, f_screenshots = [], f_executionMode = Docker\<rparr>,
           (new_run w1)\<lparr>container := c\<rparr>)
      | (Inr u, c, w1) \<Rightarrow>
          (case cu_execute a opts instruction ((new_run w1)\<lparr>container := c\<rparr>) of
             (Inl e, s) \<Rightarrow> test_failed Docker a opts e s
           | (Inr result, s) \<Rightarrow> (Inr (test_succeeded Docker instruction result), s)))"
  have "teardowns (snd r) = 0"
  proof -
    obtain o1 c w1 where init: "dm_initialize a (''computer-use-test-'' @ testId) None w = (o1, c, w1)"
      by (metis prod.collapse)
    let ?s = "(new_run w1)\<lparr>container := c\<rparr>"
    have "same_backend ?s (snd r)"
      using init by (simp add: r_def case_prod_beta split: sum.splits)
    then show ?thesis
      using same_backend_teardowns [of ?s "snd r"] by (simp add: new_run_def)
  qed
  moreover have "runTest a testId instruction opts mode w = runTest_finally Docker a r"
    unfolding runTest_def r_def Docker by simp
  ultimately show ?thesis
    by (simp add: runTest_finally_def case_prod_beta)
next
  case Puppeteer
  define r where "r =
     (case pcu_execute a opts instruction (new_run w) of
        (Inl e, s) \<Rightarrow> test_failed Puppeteer a opts e s
      | (Inr result, s) \<Rightarrow> (Inr (test_succeeded Puppeteer instruction result), s))"
  have "same_backend (snd (pcu_execute a opts instruction (new_run w))) (snd r)"
    by (simp add: r_def case_prod_beta split: sum.splits)
  then have "teardowns (snd r) = 1"
    using same_backend_teardowns [of "snd (pcu_execute a opts instruction (new_run w))" "snd r"]
          pcu_execute_teardowns [of a opts instruction "new_run w"]
    by (simp add: new_run_def)
  moreover have "runTest a testId instruction opts mode w = runTest_finally Puppeteer a r"
    unfolding runTest_def r_def Puppeteer by simp
  ultimately show ?thesis
    by (simp add: runTest_finally_def)
qed

lemma runTest_container:
  "container (snd (runTest a testId instruction opts Docker w)) = None"
  by (simp add: runTest_def runTest_finally_def dm_cleanup_def Let_def case_prod_beta
           split: option.splits)

subsection \<open>The calls of a run to the outside world\<close>

text \<open>
  No method of a run but the two \<open>cleanup\<close>s removes a container or closes a browser:
  each of the others leaves the number of such calls as it was.
\<close>

lemma removals_eq: "removals s = teardown_calls (snd (world s))"
  by (simp add: removals_def calls_def)

lemma traced_simps [simp]:
  "now (traced a) wt = now a (fst wt)"
  "messages_create (traced a) req wt
     = (fst (messages_create a req (fst wt)), snd (messages_create a req (fst wt)), snd wt @ [MessagesCreate])"
  "docker_pull (traced a) wt
     = (fst (docker_pull a (fst wt)), snd (docker_pull a (fst wt)), snd wt @ [DockerPull])"
  "docker_createContainer (traced a) name wt
     = (fst (docker_createContainer a name (fst wt)), snd (docker_createContainer a name (fst wt)), snd wt @ [CreateContainer])"
  "container_start (traced a) c wt
     = (fst (container_start a c (fst wt)), snd (container_start a c (fst wt)), snd wt @ [ContainerStart])"
  "container_exec (traced a) c command wt
     = (fst (container_exec a c command (fst wt)), snd (container_exec a c command (fst wt)), snd wt @ [ContainerExec])"
  "container_getArchive (traced a) c path wt
     = (fst (container_getArchive a c path (fst wt)), snd (container_getArchive a c path (fst wt)), snd wt @ [GetArchive])"
  "container_stop (traced a) c wt
     = (fst (container_stop a c (fst wt)), snd (container_stop a c (fst wt)), snd wt @ [ContainerStop])"
  "container_remove (traced a) c wt
     = (fst (container_remove a c (fst wt)), snd (container_remove a c (fst wt)), snd wt @ [ContainerRemove])"
  "puppeteer_launch (traced a) wt
     = (fst (puppeteer_launch a (fst wt)), snd (puppeteer_launch a (fst wt)), snd wt @ [PuppeteerLaunch])"
  "browser_newPage (traced a) b wt
     = (fst (browser_newPage a b (fst wt)), snd (browser_newPage a b (fst wt)), snd wt @ [NewPage])"
  "page_call (traced a) p op wt
     = (fst (page_call a p op (fst wt)), snd (page_call a p op (fst wt)), snd wt @ [PageCall])"
  "browser_close (traced a) b wt
     = (fst (browser_close a b (fst wt)), snd (browser_close a b (fst wt)), snd wt @ [BrowserClose])"
  by (simp_all add: traced_def)

lemma teardown_calls_simps [simp]:
  "teardown_calls [] = 0"
  "teardown_calls (cs @ ds) = teardown_calls cs + teardown_calls ds"
  "teardown_calls (c # cs) = (if c = ContainerRemove \<or> c = BrowserClose then 1 else 0) + teardown_calls cs"
  by (simp_all add: teardown_calls_def)

lemma dm_execute_count [simp]:
  "teardown_calls (snd (snd (dm_execute (traced a) c command wn))) = teardown_calls (snd wn)"
  by (simp add: dm_execute_def case_prod_beta split: option.splits exec_run.splits)

lemma dm_getFile_count [simp]:
  "teardown_calls (snd (snd (dm_getFile (traced a) c path wn))) = teardown_calls (snd wn)"
  by (simp add: dm_getFile_def case_prod_beta split: option.splits archive_outcome.splits)

lemma run_commands_count [simp]:
  "teardown_calls (snd (snd (run_commands (traced a) c cmds wn))) = teardown_calls (snd wn)"
  by (induction cmds arbitrary: wn) (simp_all add: case_prod_beta split: sum.splits)

lemma dm_initialize_count [simp]:
  "teardown_calls (snd (snd (snd (dm_initialize (traced a) name c0 wn)))) = teardown_calls (snd wn)"
  by (simp add: dm_initialize_def setupContainerEnvironment_def Let_def case_prod_beta
           split: sum.splits)

lemma dm_initialize_container:
  "fst (snd (dm_initialize (traced a) name None (w, cs)))
     = (case fst (docker_createContainer a name (snd (docker_pull a w))) of
          Inl e \<Rightarrow> None | Inr c \<Rightarrow> Some c)"
  by (simp add: dm_initialize_def setupContainerEnvironment_def Let_def case_prod_beta
           split: sum.splits)

lemma cu_takeScreenshotForClaude_count [simp]:
  "teardown_calls (snd (snd (cu_takeScreenshotForClaude (traced a) c wn))) = teardown_calls (snd wn)"
  by (simp add: cu_takeScreenshotForClaude_def Let_def case_prod_beta split: sum.splits)

lemma pcu_takeScreenshotForClaude_count [simp]:
  "teardown_calls (snd (snd (pcu_takeScreenshotForClaude (traced a) p wn))) = teardown_calls (snd wn)"
  by (simp add: pcu_takeScreenshotForClaude_def case_prod_beta split: option.splits sum.splits)

lemma world_addLog [simp]: "world (addLog m s) = world s"
  by (simp add: addLog_def)

lemma removals_addLog [simp]: "removals (addLog m s) = removals s"
  by (simp add: removals_eq addLog_def)

lemma removals_world [simp]: "removals (s\<lparr>world := wn\<rparr>) = teardown_calls (snd wn)"
  by (simp add: removals_eq)

lemma removals_fields [simp]:
  "removals (s\<lparr>screenshots := x\<rparr>) = removals s"
  "removals (s\<lparr>teardowns := t\<rparr>) = removals s"
  "removals (s\<lparr>container := c\<rparr>) = removals s"
  "removals (s\<lparr>browser := b\<rparr>) = removals s"
  "removals (s\<lparr>page := p\<rparr>) = removals s"
  by (simp_all add: removals_eq)

lemma cu_captureScreenshot_count [simp]:
  "removals (snd (cu_captureScreenshot (traced a) opts l s)) = removals s"
  by (simp add: cu_captureScreenshot_def Let_def case_prod_beta removals_eq [of s]
           split: sum.splits)

lemma pcu_captureScreenshot_count [simp]:
  "removals (snd (pcu_captureScreenshot (traced a) opts l s)) = removals s"
  by (simp add: pcu_captureScreenshot_def Let_def case_prod_beta removals_eq [of s]
           split: sum.splits)

lemma on_page_count [simp]: "removals (snd (on_page (traced a) op s)) = removals s"
  by (simp add: on_page_def case_prod_beta removals_eq [of s] split: option.splits)

lemma cu_handleComputerAction_count [simp]:
  "removals (snd (cu_handleComputerAction (traced a) opts i s)) = removals s"
  by (simp add: cu_handleComputerAction_def Let_def case_prod_beta removals_eq [of s]
           split: sum.splits option.splits)

lemma pcu_handleComputerAction_count [simp]:
  "removals (snd (pcu_handleComputerAction (traced a) opts i s)) = removals s"
  by (simp add: pcu_handleComputerAction_def Let_def case_prod_beta removals_eq [of s]
           split: sum.splits option.splits)

lemma cu_handleBashAction_count [simp]:
  "removals (snd (cu_handleBashAction (traced a) i s)) = removals s"
  by (simp add: cu_handleBashAction_def Let_def case_prod_beta removals_eq [of s]
           split: sum.splits)

lemma cu_handleTextEditorAction_count [simp]:
  "removals (snd (cu_handleTextEditorAction i s)) = removals s"
  by (simp add: cu_handleTextEditorAction_def)

lemma executeComputerUseTool_count [simp]:
  "removals (snd (executeComputerUseTool mode (traced a) opts toolUse s)) = removals s"
  by (simp add: executeComputerUseTool_def cu_executeComputerUseTool_def
                pcu_executeComputerUseTool_def tool_failed_def case_prod_beta
           split: executionMode.splits sum.splits)

lemma takeScreenshotForClaude_count [simp]:
  "teardown_calls (snd (snd (takeScreenshotForClaude mode (traced a) s))) = removals s"
  by (simp add: takeScreenshotForClaude_def removals_eq split: executionMode.splits)

lemma iteration_body_count [simp]:
  "removals (snd (snd (iteration_body mode (traced a) opts i ms s))) = removals s"
  by (simp add: iteration_body_def Let_def case_prod_beta split: sum.splits option.splits)

lemma cu_navigateToWebsite_count [simp]:
  "removals (snd (cu_navigateToWebsite (traced a) opts s)) = removals s"
  by (simp add: cu_navigateToWebsite_def Let_def case_prod_beta removals_eq [of s]
           split: sum.splits)

lemma pcu_navigateToWebsite_count [simp]:
  "removals (snd (pcu_navigateToWebsite (traced a) opts s)) = removals s"
  by (simp add: pcu_navigateToWebsite_def Let_def case_prod_beta removals_eq [of s]
           split: sum.splits option.splits)

lemma while_loop_count:
  "removals (snd (snd (snd (while_loop mode (traced a) opts k ms s)))) = removals s"
proof (induction "maxIterations - k" arbitrary: k ms s)
  case 0
  then show ?case by (simp add: while_loop.simps)
next
  case (Suc n)
  then have less: "k < maxIterations" by simp
  obtain b ms1 s1 where
    body: "iteration_body mode (traced a) opts (k + 1) ms
             (addLog (''Claude iteration '' @ digits (k + 1)) s) = (b, ms1, s1)"
    by (metis prod.collapse)
  have s1: "removals s1 = removals s"
    using iteration_body_count
            [of mode a opts "k + 1" ms "addLog (''Claude iteration '' @ digits (k + 1)) s",
             unfolded body]
    by simp
  have "n = maxIterations - (k + 1)" using Suc.hyps(2) by simp
  from Suc.hyps(1) [OF this, of ms1 s1] s1 less body show ?case
    by (subst while_loop.simps) (simp split: sum.splits flow.splits)
qed

lemma runClaudeWithComputerUse_count [simp]:
  "removals (snd (snd (snd (runClaudeWithComputerUse mode (traced a) opts instruction s))))
     = removals s"
  using while_loop_count
          [of mode a opts 0 "[(User, Plain (first_message mode (the_websiteUrl opts) instruction))]" s]
  by (simp add: runClaudeWithComputerUse_def after_loop_def case_prod_beta split: sum.splits)

lemma execute_finish_count [simp]:
  "removals (snd (execute_finish r)) = removals (snd (snd (snd r)))"
  by (simp add: execute_finish_def Let_def case_prod_beta split: sum.splits)

lemma execute_catch_count [simp]:
  "removals (snd (execute_catch r)) = removals (snd r)"
  by (simp add: execute_catch_def case_prod_beta split: sum.splits)

lemma cu_execute_count [simp]:
  "removals (snd (cu_execute (traced a) opts instruction s)) = removals s"
  by (simp add: cu_execute_def Let_def case_prod_beta split: sum.splits)

lemma test_failed_count [simp]:
  "removals (snd (test_failed mode (traced a) opts e s)) = removals s"
  by (simp add: test_failed_def case_prod_beta split: executionMode.splits)

lemma pcu_initializeBrowser_count [simp]:
  "removals (snd (pcu_initializeBrowser (traced a) s)) = removals s"
  by (simp add: pcu_initializeBrowser_def Let_def case_prod_beta removals_eq [of s]
           split: sum.splits)

lemma pcu_initializeBrowser_browser:
  "browser (snd (pcu_initializeBrowser (traced a) s))
     = (case fst (puppeteer_launch a (fst (world s))) of Inl e \<Rightarrow> browser s | Inr b \<Rightarrow> Some b)"
  by (simp add: pcu_initializeBrowser_def Let_def case_prod_beta split: sum.splits)

lemma pcu_cleanup_count:
  "removals (snd (pcu_cleanup (traced a) s))
     = removals s + (if browser s = None then 0 else 1)"
  by (simp add: pcu_cleanup_def Let_def case_prod_beta removals_eq [of s]
           split: option.splits sum.splits)

lemma same_backend_browser: "same_backend s s' \<Longrightarrow> browser s' = browser s"
  by (simp add: same_backend_def)

lemma same_backend_container: "same_backend s s' \<Longrightarrow> container s' = container s"
  by (simp add: same_backend_def)

lemma pcu_execute_count:
  "removals (snd (pcu_execute (traced a) opts instruction (new_run (w, []))))
     = (case fst (puppeteer_launch a w) of Inl e \<Rightarrow> 0 | Inr b \<Rightarrow> 1)"
proof -
  let ?s0 = "addLog (''Starting execution with Puppeteer: '' @ instruction) (new_run (w, []))"
  define body where "body =
     execute_catch
       (case pcu_initializeBrowser (traced a) ?s0 of
          (Inl e, s1) \<Rightarrow> (Inl e, s1)
        | (Inr u, s1) \<Rightarrow>
            (case pcu_navigateToWebsite (traced a) opts s1 of
               (Inl e, s2) \<Rightarrow> (Inl e, s2)
             | (Inr u', s2) \<Rightarrow>
                 execute_finish
                   (runClaudeWithComputerUse Puppeteer (traced a) opts instruction
                      (if takeScreenshots opts
                       then snd (pcu_captureScreenshot (traced a) opts ''Initial state'' s2)
                       else s2))))"
  let ?s1 = "snd (pcu_initializeBrowser (traced a) ?s0)"
  have "same_backend ?s1 (snd body)"
    by (simp add: body_def case_prod_beta split: sum.splits)
  then have b: "browser (snd body) = browser ?s1"
    by (rule same_backend_browser)
  have "removals ?s0 = 0"
    by (simp add: removals_eq new_run_def addLog_def)
  then have c: "removals (snd body) = 0"
    by (simp add: body_def case_prod_beta split: sum.splits)
  have l: "browser ?s1 = (case fst (puppeteer_launch a w) of Inl e \<Rightarrow> None | Inr b \<Rightarrow> Some b)"
    by (simp add: pcu_initializeBrowser_browser new_run_def addLog_def split: sum.splits)
  have "pcu_execute (traced a) opts instruction (new_run (w, []))
          = (case body of
               (r, s4) \<Rightarrow>
                 (case pcu_cleanup (traced a) s4 of
                    (Inl e, s5) \<Rightarrow> (Inl e, s5)
                  | (Inr u, s5) \<Rightarrow> (r, s5)))"
    unfolding pcu_execute_def Let_def body_def by (rule refl)
  then show ?thesis
    using pcu_cleanup_count [of a "snd body"] pcu_cleanup_returns [of "traced a" "snd body"] b c l
    by (simp add: case_prod_beta split: sum.splits)
qed

lemma runTest_closes_browser:
  "removals (snd (runTest (traced a) testId instruction opts Puppeteer (w, [])))
     = (case fst (puppeteer_launch a w) of Inl e \<Rightarrow> 0 | Inr b \<Rightarrow> 1)"
  using pcu_execute_count [of a opts instruction w]
  by (simp add: runTest_def runTest_finally_def case_prod_beta split: sum.splits)

lemma runTest_removes_container:
  "removals (snd (runTest (traced a) testId instruction opts Docker (w, [])))
     = (case fst (docker_createContainer a (''computer-use-test-'' @ testId) (snd (docker_pull a w))) of
          Inl e \<Rightarrow> 0 | Inr c \<Rightarrow> 1)"
proof -
  let ?name = "''computer-use-test-'' @ testId"
  define r where "r =
     (case dm_initialize (traced a) ?name None (w, []) of
        (Inl e, c, w1) \<Rightarrow>
          (Inl \<lparr>f_message = message e, f_screenshots = [], f_executionMode = Docker\<rparr>,
           (new_run w1)\<lparr>container := c\<rparr>)
      | (Inr u, c, w1) \<Rightarrow>
          (case cu_execute (traced a) opts instruction ((new_run w1)\<lparr>container := c\<rparr>) of
             (Inl e, s) \<Rightarrow> test_failed Docker (traced a) opts e s
           | (Inr result, s) \<Rightarrow> (Inr (test_succeeded Docker instruction result), s)))"
  obtain o1 c w1 where init: "dm_initialize (traced a) ?name None (w, []) = (o1, c, w1)"
    by (metis prod.collapse)
  have c: "c = (case fst (docker_createContainer a ?name (snd (docker_pull a w))) of
                  Inl e \<Rightarrow> None | Inr c \<Rightarrow> Some c)"
    using dm_initialize_container [of a ?name w "[]", unfolded init] by simp
  have n: "teardown_calls (snd w1) = 0"
    using dm_initialize_count [of a ?name None "(w, [])", unfolded init] by simp
  let ?s = "(new_run w1)\<lparr>container := c\<rparr>"
  have "same_backend ?s (snd r)"
    using init by (simp add: r_def case_prod_beta split: sum.splits)
  then have rc: "container (snd r) = c"
    using same_backend_container [of ?s "snd r"] by simp
  have "removals ?s = 0"
    using n by (simp add: removals_eq new_run_def)
  then have rn: "removals (snd r) = 0"
    using init by (simp add: r_def case_prod_beta split: sum.splits)
  have "runTest (traced a) testId instruction opts Docker (w, []) = runTest_finally Docker (traced a) r"
    unfolding runTest_def r_def by simp
  then show ?thesis
    using rc rn c
    by (simp add: runTest_finally_def dm_cleanup_def Let_def case_prod_beta removals_eq [of "snd r"]
                  split: sum.splits option.splits)
qed

subsection \<open>Teardown in a run and in the handler\<close>

lemma teardown_calls_take: "teardown_calls cs = 0 \<Longrightarrow> teardown_calls (take k cs) = 0"
proof -
  have "teardown_calls (take k cs) + teardown_calls (drop k cs) = teardown_calls cs"
    by (simp flip: teardown_calls_simps(2))
  then show "teardown_calls cs = 0 \<Longrightarrow> teardown_calls (take k cs) = 0"
    by simp
qed

lemma no_teardown_before_last:
  assumes "teardown_calls pre = 0" and "k < length (pre @ post)"
    and "post = [] \<or> post = [ContainerStop, ContainerRemove]"
  shows "teardown_calls (take k (pre @ post)) = 0"
proof -
  have "teardown_calls (take (k - length pre) post) = 0"
  proof (cases "post = []")
    case True
    then show ?thesis by simp
  next
    case False
    then have post: "post = [ContainerStop, ContainerRemove]" using assms(3) by simp
    then have "k - length pre = 0 \<or> k - length pre = Suc 0" using assms(2) by auto
    then show ?thesis using post by auto
  qed
  then show ?thesis
    using teardown_calls_take [OF assms(1), of k] by simp
qed

lemma runTest_Docker_calls:
  "\<exists>pre. teardown_calls pre = 0
     \<and> calls (snd (runTest (traced a) testId instruction opts Docker (w, [])))
         = pre @ (case fst (docker_createContainer a (''computer-use-test-'' @ testId)
                              (snd (docker_pull a w))) of
                    Inl e \<Rightarrow> [] | Inr h \<Rightarrow> [ContainerStop, ContainerRemove])"
proof -
  let ?name = "''computer-use-test-'' @ testId"
  define r where "r =
     (case dm_initialize (traced a) ?name None (w, []) of
        (Inl e, c, w1) \<Rightarrow>
          (Inl \<lparr>f_message = message e, f_screenshots = [], f_executionMode = Docker\<rparr>,
           (new_run w1)\<lparr>container := c\<rparr>)
      | (Inr u, c, w1) \<Rightarrow>
          (case cu_execute (traced a) opts instruction ((new_run w1)\<lparr>container := c\<rparr>) of
             (Inl e, s) \<Rightarrow> test_failed Docker (traced a) opts e s
           | (Inr result, s) \<Rightarrow> (Inr (test_succeeded Docker instruction result), s)))"
  obtain o1 c w1 where init: "dm_initialize (traced a) ?name None (w, []) = (o1, c, w1)"
    by (metis prod.collapse)
  have c: "c = (case fst (docker_createContainer a ?name (snd (docker_pull a w))) of
                  Inl e \<Rightarrow> None | Inr c \<Rightarrow> Some c)"
    using dm_initialize_container [of a ?name w "[]", unfolded init] by simp
  have n: "teardown_calls (snd w1) = 0"
    using dm_initialize_count [of a ?name None "(w, [])", unfolded init] by simp
  let ?s = "(new_run w1)\<lparr>container := c\<rparr>"
  have "same_backend ?s (snd r)"
    using init by (simp add: r_def case_prod_beta split: sum.splits)
  then have rc: "container (snd r) = c"
    using same_backend_container [of ?s "snd r"] by simp
  have "removals ?s = 0"
    using n by (simp add: removals_eq new_run_def)
  then have rn: "removals (snd r) = 0"
    using init by (simp add: r_def case_prod_beta split: sum.splits)
  have run: "runTest (traced a) testId instruction opts Docker (w, []) = runTest_finally Docker (traced a) r"
    unfolding runTest_def r_def by simp
  have "calls (snd (runTest_finally Docker (traced a) r))
          = calls (snd r) @ (case c of None \<Rightarrow> [] | Some h \<Rightarrow> [ContainerStop, ContainerRemove])"
    using rc
    by (simp add: runTest_finally_def dm_cleanup_def Let_def case_prod_beta calls_def
             split: option.splits)
  then show ?thesis
    using rn c run
    by (intro exI [of _ "calls (snd r)"]) (simp add: removals_def split: sum.splits)
qed

lemma runTest_Docker_answered_before_removal:
  assumes "k < length (calls (snd (runTest (traced a) testId instruction opts Docker (w, []))))"
  shows "teardown_calls (take k (calls (snd (runTest (traced a) testId instruction opts Docker (w, []))))) = 0"
proof -
  obtain pre where pre: "teardown_calls pre = 0"
    and cs: "calls (snd (runTest (traced a) testId instruction opts Docker (w, [])))
               = pre @ (case fst (docker_createContainer a (''computer-use-test-'' @ testId)
                                    (snd (docker_pull a w))) of
                          Inl e \<Rightarrow> [] | Inr h \<Rightarrow> [ContainerStop, ContainerRemove])"
    using runTest_Docker_calls [of a testId instruction opts w] by blast
  show ?thesis
    using assms unfolding cs
    by (intro no_teardown_before_last [OF pre]) (simp_all split: sum.splits)
qed

lemma pcu_cleanup_handles:
  "browser s = Some b \<Longrightarrow>
     (browser (snd (pcu_cleanup a s)), page (snd (pcu_cleanup a s)))
       = (if fst (browser_close a b (world s)) = Inr () then (None, None) else (Some b, page s))"
  by (simp add: pcu_cleanup_def Let_def case_prod_beta addLog_def split: sum.splits)

lemma pcu_cleanup_without_browser:
  "browser s = None \<Longrightarrow> pcu_cleanup a s = (Inr (), s\<lparr>teardowns := teardowns s + 1\<rparr>)"
  by (simp add: pcu_cleanup_def Let_def)

lemma dm_cleanup_with_container:
  "dm_cleanup a (Some c) w
     = (Inr (), None, snd (container_remove a c (snd (container_stop a c w))))"
  by (simp add: dm_cleanup_def Let_def)

lemma handler_state:
  "snd (handler a cfg testId instruction options mode race w)
     = snd (runTest a testId instruction (testOptions cfg options) mode w)"
  by (simp add: handler_def case_prod_beta)

lemma handler_timeout_answer:
  "fst (handler a cfg testId instruction options mode (TimerFiresAfter k) w)
     = \<lparr>statusCode = 500, body_success = False, body_error = Some ''Test timeout''\<rparr>"
  by (simp add: handler_def handler_answer_def case_prod_beta)

lemma failed_docker_run_calls:
  "calls (snd (runTest (traced (sim_api silent (exits_with 1) (Inr ()))) ''t1''
                 ''Check the login page'' (testOptions config0 no_options) Docker (sim0, [])))
     = [DockerPull, CreateContainer, ContainerStart, ContainerExec, ContainerExec,
        ContainerExec, ContainerExec, ContainerExec, ContainerExec, ContainerExec,
        ContainerExec, ContainerExec, ContainerExec, ContainerExec, ContainerExec,
        ContainerExec, ContainerExec, ContainerExec, ContainerStop, ContainerRemove]"
  by (simp add: runTest_def runTest_finally_def dm_initialize_def setupContainerEnvironment_def
                setupCommands_def cu_execute_def cu_captureScreenshot_def cu_navigateToWebsite_def
                cu_navigate_command_def test_failed_def dm_cleanup_def execute_catch_def
                navigate_failed_def screenshot_failed_def the_websiteUrl_def run_defs sim_defs
                traced_def calls_def testOptions_def computed_options_def spread_def config0_def
                no_options_def)

lemma completed_browser_run:
  "runTest (traced (sim_api (finishing_at 1) (exits_with 0) (Inr ()))) ''t2''
      ''Check the login page'' (testOptions config0 no_options) Puppeteer (sim0, [])
     = (Inr \<lparr>t_message = ''Successfully completed: Check the login page'',
              t_screenshots =
                [\<lparr>step = ''Navigated to app.giftround.com'', timestamp = 0,
                   image_base64 = ''data:image/png;base64,iVBORw0KGgo=''\<rparr>,
                 \<lparr>step = ''Initial state'', timestamp = 0,
                   image_base64 = ''data:image/png;base64,iVBORw0KGgo=''\<rparr>],
              t_log =
                [''Starting execution with Puppeteer: Check the login page'',
                 ''Initializing Puppeteer browser'',
                 ''Puppeteer browser initialized successfully'',
                 ''Navigating to app.giftround.com'',
                 ''Screenshot captured: Navigated to app.giftround.com'',
                 ''Successfully navigated to app.giftround.com'',
                 ''Screenshot captured: Initial state'', ''Claude iteration 1'',
                 ''Claude: Done.'', ''Claude indicates task completion'',
                 ''Execution completed successfully''],
              t_executionMode = Puppeteer\<rparr>,
        \<lparr>container = None, browser = None, page = None,
           screenshots =
             [\<lparr>step = ''Navigated to app.giftround.com'', timestamp = 0,
                image_base64 = ''data:image/png;base64,iVBORw0KGgo=''\<rparr>,
              \<lparr>step = ''Initial state'', timestamp = 0,
                image_base64 = ''data:image/png;base64,iVBORw0KGgo=''\<rparr>],
           log =
             [''Starting execution with Puppeteer: Check the login page'',
              ''Initializing Puppeteer browser'',
              ''Puppeteer browser initialized successfully'',
              ''Navigating to app.giftround.com'',
              ''Screenshot captured: Navigated to app.giftround.com'',
              ''Successfully navigated to app.giftround.com'',
              ''Screenshot captured: Initial state'', ''Claude iteration 1'',
              ''Claude: Done.'', ''Claude indicates task completion'',
              ''Execution completed successfully'', ''Browser closed successfully''],
           teardowns = 1,
           world = (\<lparr>agent_calls = 1, commands = [],
                      page_ops = [SetViewport 1280 720, Goto ''https://app.giftround.com'',
                                  TakeScreenshot, TakeScreenshot, TakeScreenshot]\<rparr>,
                    [PuppeteerLaunch, NewPage, PageCall, PageCall, PageCall, PageCall, PageCall,
                     MessagesCreate, BrowserClose])\<rparr>)"
  by (simp add: runTest_def runTest_finally_def pcu_execute_def pcu_initializeBrowser_def
                pcu_navigateToWebsite_def pcu_captureScreenshot_def pcu_cleanup_def
                execute_finish_def execute_catch_def test_succeeded_def first_message_def
                the_websiteUrl_def run_defs sim_defs display_width_def display_height_def
                traced_def testOptions_def computed_options_def spread_def config0_def
                no_options_def)





end
